theory Spec2Isabelle
  imports Main
begin

section \<open>The AutoML orchestrator of \<^verbatim>\<open>lightautoml/automl/base.py\<close>\<close>

text \<open>
  The class \<^verbatim>\<open>AutoML\<close> sequences levels of ML pipelines, feeds the predictions
  of one level to the next, watches a timer and hands the last level to a blender.
  Reader, pipelines, blender, datasets and validation iterators are collaborators
  whose code lives in other modules. Their methods are parameters of the model
  (the record \<open>collaborators\<close>), so every theorem below holds for all of them.

  A Python method that mutates its object returns the new object here. Every
  function of the orchestrator returns its outcome (an error for a raised
  exception), the orchestrator after the call, and the calls it made on its
  collaborators, in order. What the model takes for granted:
  \<^item> a call to a collaborator returns normally; the one exception is
    \<^verbatim>\<open>from_dataset\<close>, whose \<^verbatim>\<open>TypeError\<close> the orchestrator catches;
  \<^item> the pipelines of a configuration are different objects, so fitting one does
    not change another;
  \<^item> assertions are checked (Python does not run with \<^verbatim>\<open>-O\<close>);
  \<^item> calls to the logger have no effect and are left out, but for the message
    \<^verbatim>\<open>'Layer n ...'\<close> that opens every level, which is kept as an event.
\<close>

subsection \<open>Values, errors and events\<close>

datatype error = AssertionError string | TypeError string | AttributeError string

type_synonym feature = string
type_synonym roles = "(string \<times> string) list"

text \<open>
  The variable \<^verbatim>\<open>level_predictions\<close> is \<^verbatim>\<open>None\<close>, then a Python list of
  datasets, then (after \<^verbatim>\<open>concatenate\<close>) one dataset.
\<close>

datatype 'd preds = PNone | PList "'d list" | PDataset 'd

datatype ('d, 'p) event =
    TimerStart
  | FitRead
  | ReadData
  | CreateValidationIterator
  | Layer nat
  | PipeFit 'p 'd
  | TimeLimitExceeded bool
  | ChildOutOfTime bool
  | Concatenate
  | FromDataset bool
  | BlenderFitPredict "'d preds" "'p list option"
  | UpdUsedFeatures "feature list"
  | PipePredict 'p
  | BlenderPredict "'d preds"

subsection \<open>The collaborators\<close>

text \<open>
  Modelled from the spec: the classes \<^verbatim>\<open>Reader\<close>, \<^verbatim>\<open>MLPipeline\<close>,
  \<^verbatim>\<open>Blender\<close>, \<^verbatim>\<open>BestModelSelector\<close> and \<^verbatim>\<open>LAMLDataset\<close> and the functions
  \<^verbatim>\<open>concatenate\<close> and \<^verbatim>\<open>create_validation_iterator\<close> are imported from modules
  that are missing. Their methods are the fields of a record, with the signatures
  that the spec lists as external interfaces and that the calls in
  \<^verbatim>\<open>base.py\<close> use. A method that trains (\<open>fit_read\<close>, \<open>pipe_fit_predict\<close>,
  \<open>blender_fit_predict\<close>) or updates (\<open>upd_used_features\<close>, \<open>upd_model_names\<close>)
  returns its object anew. The inference-time methods \<open>read\<close>, \<open>pipe_predict\<close>
  and \<open>blender_predict\<close> return a dataset and leave their object as it is, as the
  spec says of them.

  Type variables: \<open>'x\<close> raw input data, \<open>'c\<close> a custom cross-validation iterator,
  \<open>'d\<close> datasets, \<open>'v\<close> validation iterators, \<open>'p\<close> pipelines, \<open>'r\<close> readers,
  \<open>'b\<close> blenders. \<open>from_dataset target other\<close> is
  \<^verbatim>\<open>target.from_dataset(other)\<close>; \<open>None\<close> stands for the \<^verbatim>\<open>TypeError\<close> it may
  raise. \<open>create_validation_iterator\<close> has no argument for \<^verbatim>\<open>n_folds\<close>, which is
  \<^verbatim>\<open>None\<close> in both calls. The blender takes the variables \<^verbatim>\<open>level_predictions\<close>
  and \<^verbatim>\<open>pipes\<close> as they are at the call.
\<close>

record ('x, 'c, 'd, 'v, 'p, 'r, 'b) collaborators =
  fit_read :: "'r \<Rightarrow> 'x \<Rightarrow> feature list option \<Rightarrow> roles \<Rightarrow> 'd \<times> 'r"
  read :: "'r \<Rightarrow> 'x \<Rightarrow> feature list option \<Rightarrow> bool \<Rightarrow> 'd"
  used_features :: "'r \<Rightarrow> feature list"
  upd_used_features :: "'r \<Rightarrow> feature list \<Rightarrow> 'r"
  folds :: "'d \<Rightarrow> nat list option"
  concatenate :: "'d list \<Rightarrow> 'd"
  from_dataset :: "'d \<Rightarrow> 'd \<Rightarrow> 'd option"
  create_validation_iterator :: "'d \<Rightarrow> 'd option \<Rightarrow> 'c option \<Rightarrow> 'v"
  get_validation_data :: "'v \<Rightarrow> 'd"
  pipe_fit_predict :: "'p \<Rightarrow> 'v \<Rightarrow> 'd \<times> 'p"
  pipe_predict :: "'p \<Rightarrow> 'd \<Rightarrow> 'd"
  pipe_used_features :: "'p \<Rightarrow> feature list"
  upd_model_names :: "'p \<Rightarrow> string \<Rightarrow> 'p"
  blender_fit_predict :: "'b \<Rightarrow> 'd preds \<Rightarrow> 'p list option \<Rightarrow> ('d \<times> 'p list) \<times> 'b"
  blender_predict :: "'b \<Rightarrow> 'd preds \<Rightarrow> 'd"
  BestModelSelector :: "'b"

subsection \<open>The timer\<close>

text \<open>
  Modelled from the spec: the class \<^verbatim>\<open>PipelineTimer\<close> (module
  \<^verbatim>\<open>utils/timer.py\<close>) is missing. The spec describes a tracker of elapsed time
  with a boolean signal "budget exceeded" and a separate signal "a child task went
  over budget". Time passes while pipelines are fitted and is counted here in
  completed fits since \<^verbatim>\<open>start()\<close>. The orchestrator reads the timer only
  between fits, so whatever the timer answers is a function of that count: the two
  signals are arbitrary functions of it, carried by the timer. The docstring of
  \<^verbatim>\<open>__init__\<close> calls the default timer unlimited. Reading \<^verbatim>\<open>time_left\<close> serves
  the logger only and is left out.
\<close>

record timer =
  started :: bool
  elapsed :: nat
  limit_exceeded_at :: "nat \<Rightarrow> bool"
  child_out_at :: "nat \<Rightarrow> bool"

definition timer_start :: "timer \<Rightarrow> timer" where
  "timer_start t = t\<lparr>started := True, elapsed := 0\<rparr>"

definition time_limit_exceeded :: "timer \<Rightarrow> bool" where
  "time_limit_exceeded t = limit_exceeded_at t (elapsed t)"

definition child_out_of_time :: "timer \<Rightarrow> bool" where
  "child_out_of_time t = child_out_at t (elapsed t)"

definition PipelineTimer :: timer where
  "PipelineTimer =
     \<lparr>started = False, elapsed = 0,
      limit_exceeded_at = (\<lambda>_. False), child_out_at = (\<lambda>_. False)\<rparr>"

subsection \<open>The orchestrator object\<close>

text \<open>
  \<open>u_levels\<close> is the attribute \<^verbatim>\<open>self._levels\<close>, \<open>levels\<close> is \<^verbatim>\<open>self.levels\<close>;
  \<open>None\<close> means that the object has no such attribute.
\<close>

record ('p, 'r, 'b) automl =
  timer :: timer
  reader :: 'r
  u_levels :: "'p list list option"
  blender :: 'b
  skip_conn :: bool
  levels :: "'p list list option"

subsection \<open>\<^verbatim>\<open>_initialize\<close>\<close>

text \<open>
  \<^verbatim>\<open>__init__\<close> only calls \<^verbatim>\<open>_initialize\<close> (lines 66 to 100). Its argument
  \<^verbatim>\<open>verbose\<close> sets the level of the logger and is left out. The two loops that
  name the pipelines are \<open>name_levels\<close> and \<open>name_pipes\<close>, each with the index that
  \<^verbatim>\<open>enumerate\<close> counts. \<open>str_nat\<close> is Python's \<^verbatim>\<open>'{0}'.format(n)\<close> for a
  natural number: its decimal digits.
\<close>

definition digit_char :: "nat \<Rightarrow> char" where
  "digit_char d = ''0123456789'' ! d"

fun str_nat :: "nat \<Rightarrow> string" where
  "str_nat n = (if n < 10 then [digit_char n] else str_nat (n div 10) @ [digit_char (n mod 10)])"

declare str_nat.simps [simp del]

definition model_name :: "nat \<Rightarrow> nat \<Rightarrow> string" where
  "model_name i j = ''Lvl_'' @ str_nat i @ ''_Pipe_'' @ str_nat j"

fun name_pipes ::
  "('x, 'c, 'd, 'v, 'p, 'r, 'b) collaborators \<Rightarrow> nat \<Rightarrow> nat \<Rightarrow> 'p list \<Rightarrow> 'p list" where
  "name_pipes E i j [] = []"
| "name_pipes E i j (pipe # lvl) =
     upd_model_names E pipe (model_name i j) # name_pipes E i (Suc j) lvl"

fun name_levels ::
  "('x, 'c, 'd, 'v, 'p, 'r, 'b) collaborators \<Rightarrow> nat \<Rightarrow> 'p list list \<Rightarrow> 'p list list" where
  "name_levels E i [] = []"
| "name_levels E i (lvl # lvls) = name_pipes E i 0 lvl # name_levels E (Suc i) lvls"

definition initialize ::
  "('x, 'c, 'd, 'v, 'p, 'r, 'b) collaborators \<Rightarrow> 'r \<Rightarrow> 'p list list \<Rightarrow> timer option \<Rightarrow>
   'b option \<Rightarrow> bool \<Rightarrow> error + ('p, 'r, 'b) automl" where
  "initialize E rd lvls tm bl sc =
     (if \<not> 0 < length lvls then Inl (AssertionError ''At least 1 level should be defined'')
      else Inr \<lparr>timer = (case tm of None \<Rightarrow> PipelineTimer | Some t \<Rightarrow> t),
                reader = rd,
                u_levels = Some (name_levels E 0 lvls),
                blender = (case bl of None \<Rightarrow> BestModelSelector E | Some b \<Rightarrow> b),
                skip_conn = sc,
                levels = None\<rparr>)"

subsection \<open>\<^verbatim>\<open>collect_used_feats\<close>\<close>

text \<open>
  The union of the used features of every pipeline of every retained level. Python
  builds a set and returns it as a list, in no particular order; the model keeps the
  order of first occurrence.
\<close>

definition collect_used_feats ::
  "('x, 'c, 'd, 'v, 'p, 'r, 'b) collaborators \<Rightarrow> ('p, 'r, 'b) automl \<Rightarrow> error + feature list" where
  "collect_used_feats E a =
     (case levels a of
        None \<Rightarrow> Inl (AttributeError ''levels'')
      | Some lvls \<Rightarrow> Inr (remdups (concat (map (pipe_used_features E) (concat lvls)))))"

subsection \<open>\<^verbatim>\<open>fit_predict\<close>\<close>

text \<open>
  The inner loop over the pipelines of one level (lines 151 to 164). The result
  holds the predictions and pipelines collected so far, the timer, and whether the
  loop was left by \<^verbatim>\<open>break\<close>.
\<close>

fun fit_pipes ::
  "('x, 'c, 'd, 'v, 'p, 'r, 'b) collaborators \<Rightarrow> 'v \<Rightarrow> 'p list \<Rightarrow> 'd list \<Rightarrow> 'p list \<Rightarrow> timer \<Rightarrow>
   ('d list \<times> 'p list \<times> timer \<times> bool) \<times> ('d, 'p) event list" where
  "fit_pipes E train_valid [] level_predictions pipes t =
     ((level_predictions, pipes, t, False), [])"
| "fit_pipes E train_valid (ml_pipe # rest) level_predictions pipes t =
     (let (pipe_pred, fitted) = pipe_fit_predict E ml_pipe train_valid;
          t1 = t\<lparr>elapsed := Suc (elapsed t)\<rparr>;
          level_predictions1 = level_predictions @ [pipe_pred];
          pipes1 = pipes @ [fitted]
      in if time_limit_exceeded t1
         then ((level_predictions1, pipes1, t1, True),
               [PipeFit fitted pipe_pred, TimeLimitExceeded True])
         else (let (res, evs) = fit_pipes E train_valid rest level_predictions1 pipes1 t1
               in (res, PipeFit fitted pipe_pred # TimeLimitExceeded False # evs)))"

text \<open>How one pass through the body of the loop over the levels ends.\<close>

datatype 'v flow = Next 'v | Break | Raise error

text \<open>
  The body of the loop over the levels (lines 142 to 191) for level number \<open>n\<close> of
  \<open>n_levels\<close>. It returns how the pass ends, the variables \<^verbatim>\<open>level_predictions\<close> and
  \<^verbatim>\<open>pipes\<close>, the orchestrator and the events.
\<close>

definition level_body ::
  "('x, 'c, 'd, 'v, 'p, 'r, 'b) collaborators \<Rightarrow> nat \<Rightarrow> nat \<Rightarrow> 'p list \<Rightarrow> 'v \<Rightarrow>
   ('p, 'r, 'b) automl \<Rightarrow>
   'v flow \<times> 'd preds \<times> 'p list \<times> ('p, 'r, 'b) automl \<times> ('d, 'p) event list" where
  "level_body E n_levels n level train_valid a =
     (let flg_last_level = (n = n_levels);
          ((level_predictions, pipes, t1, broke), evs1) =
             fit_pipes E train_valid level [] [] (timer a);
          a1 = a\<lparr>timer := t1\<rparr>;
          flg_last_level1 =
             (if broke then True else if child_out_of_time t1 then True else flg_last_level);
          evs2 = Layer n # evs1 @ (if broke then [] else [ChildOutOfTime (child_out_of_time t1)])
      in if \<not> flg_last_level1 then
           (case levels a1 of
              None \<Rightarrow> (Raise (AttributeError ''levels''), PList level_predictions, pipes, a1, evs2)
            | Some lvls \<Rightarrow>
                (let a2 = a1\<lparr>levels := Some (lvls @ [pipes])\<rparr>;
                     cat = concatenate E level_predictions
                 in if skip_conn a2 then
                      (let valid_part = get_validation_data E train_valid
                       in case from_dataset E valid_part cat of
                            None \<Rightarrow>
                              (Raise (TypeError
                                 ''Can not convert prediction dataset type to input features. Set skip_conn=False''),
                               PDataset cat, pipes, a2, evs2 @ [Concatenate, FromDataset False])
                          | Some conv \<Rightarrow>
                              (let merged = concatenate E [conv, valid_part]
                               in (Next (create_validation_iterator E merged None None),
                                   PDataset merged, pipes, a2,
                                   evs2 @ [Concatenate, FromDataset True, Concatenate,
                                           CreateValidationIterator])))
                    else (Next (create_validation_iterator E cat None None),
                          PDataset cat, pipes, a2,
                          evs2 @ [Concatenate, CreateValidationIterator])))
         else (Break, PList level_predictions, pipes, a1, evs2))"

text \<open>
  The loop over the levels (lines 140 to 191): \<open>n_levels\<close> is \<^verbatim>\<open>len(self._levels)\<close>,
  \<open>n\<close> the number of the next level, counted from 1.
\<close>

fun fit_levels ::
  "('x, 'c, 'd, 'v, 'p, 'r, 'b) collaborators \<Rightarrow> nat \<Rightarrow> nat \<Rightarrow> 'p list list \<Rightarrow> 'v \<Rightarrow>
   'd preds \<Rightarrow> 'p list option \<Rightarrow> ('p, 'r, 'b) automl \<Rightarrow>
   (error + 'd preds \<times> 'p list option) \<times> ('p, 'r, 'b) automl \<times> ('d, 'p) event list" where
  "fit_levels E n_levels n [] train_valid level_predictions pipes a =
     (Inr (level_predictions, pipes), a, [])"
| "fit_levels E n_levels n (level # rest) train_valid level_predictions pipes a =
     (case level_body E n_levels n level train_valid a of
        (Raise e, level_predictions1, pipes1, a1, evs1) \<Rightarrow> (Inl e, a1, evs1)
      | (Break, level_predictions1, pipes1, a1, evs1) \<Rightarrow>
          (Inr (level_predictions1, Some pipes1), a1, evs1)
      | (Next train_valid1, level_predictions1, pipes1, a1, evs1) \<Rightarrow>
          (let (res, a2, evs2) =
                 fit_levels E n_levels (Suc n) rest train_valid1 level_predictions1 (Some pipes1) a1
           in (res, a2, evs1 @ evs2)))"

text \<open>
  The part of \<^verbatim>\<open>fit_predict\<close> after the loop (lines 193 to 199): blend, record the
  last level, prune the reader's used features, delete \<^verbatim>\<open>self._levels\<close>.
\<close>

definition blend_and_finish ::
  "('x, 'c, 'd, 'v, 'p, 'r, 'b) collaborators \<Rightarrow> 'd preds \<Rightarrow> 'p list option \<Rightarrow>
   ('p, 'r, 'b) automl \<Rightarrow> (error + 'd) \<times> ('p, 'r, 'b) automl \<times> ('d, 'p) event list" where
  "blend_and_finish E level_predictions pipes a =
     (let ((blended_prediction, last_pipes), b1) =
             blender_fit_predict E (blender a) level_predictions pipes;
          a1 = a\<lparr>blender := b1\<rparr>;
          evs1 = [BlenderFitPredict level_predictions pipes]
      in case levels a1 of
           None \<Rightarrow> (Inl (AttributeError ''levels''), a1, evs1)
         | Some lvls \<Rightarrow>
             (let a2 = a1\<lparr>levels := Some (lvls @ [last_pipes])\<rparr>
              in case collect_used_feats E a2 of
                   Inl e \<Rightarrow> (Inl e, a2, evs1)
                 | Inr used \<Rightarrow>
                     (let remove = filter (\<lambda>f. f \<notin> set used) (remdups (used_features E (reader a2)));
                          a3 = a2\<lparr>reader := upd_used_features E (reader a2) remove\<rparr>;
                          evs2 = evs1 @ [UpdUsedFeatures remove]
                      in case u_levels a3 of
                           None \<Rightarrow> (Inl (AttributeError ''_levels''), a3, evs2)
                         | Some _ \<Rightarrow> (Inr blended_prediction, a3\<lparr>u_levels := None\<rparr>, evs2))))"

definition fit_predict ::
  "('x, 'c, 'd, 'v, 'p, 'r, 'b) collaborators \<Rightarrow> ('p, 'r, 'b) automl \<Rightarrow> 'x \<Rightarrow> roles \<Rightarrow>
   feature list option \<Rightarrow> 'c option \<Rightarrow> 'x option \<Rightarrow> feature list option \<Rightarrow>
   (error + 'd) \<times> ('p, 'r, 'b) automl \<times> ('d, 'p) event list" where
  "fit_predict E a train_data rls train_features cv_iter valid_data valid_features =
     (let a1 = a\<lparr>timer := timer_start (timer a)\<rparr>;
          (train_dataset, r1) = fit_read E (reader a1) train_data train_features rls;
          a2 = a1\<lparr>reader := r1\<rparr>;
          evs0 = [TimerStart, FitRead]
      in case u_levels a2 of
           None \<Rightarrow> (Inl (AttributeError ''_levels''), a2, evs0)
         | Some lvls \<Rightarrow>
             if \<not> (length lvls \<le> 1 \<or> folds E train_dataset \<noteq> None) then
               (Inl (AssertionError ''Not possible to fit more than 1 level without cv folds''),
                a2, evs0)
             else if \<not> (length lvls \<le> 1 \<or> valid_data = None) then
               (Inl (AssertionError ''Not possible to fit more than 1 level with holdout validation''),
                a2, evs0)
             else
               (let valid_dataset =
                      (case valid_data of
                         None \<Rightarrow> None
                       | Some vd \<Rightarrow> Some (read E (reader a2) vd valid_features True));
                    evs1 = evs0 @ (case valid_data of None \<Rightarrow> [] | Some _ \<Rightarrow> [ReadData]);
                    train_valid = create_validation_iterator E train_dataset valid_dataset cv_iter;
                    evs2 = evs1 @ [CreateValidationIterator];
                    a3 = a2\<lparr>levels := Some []\<rparr>
                in case fit_levels E (length lvls) 1 lvls train_valid PNone None a3 of
                     (Inl e, a4, evs3) \<Rightarrow> (Inl e, a4, evs2 @ evs3)
                   | (Inr (level_predictions, pipes), a4, evs3) \<Rightarrow>
                       (let (res, a5, evs4) = blend_and_finish E level_predictions pipes a4
                        in (res, a5, evs2 @ evs3 @ evs4))))"

subsection \<open>\<^verbatim>\<open>predict\<close>\<close>

text \<open>
  The loop over the retained levels (lines 217 to 239). The variables are the
  current \<^verbatim>\<open>dataset\<close> and \<^verbatim>\<open>blended_prediction\<close>, which starts as \<^verbatim>\<open>None\<close>.
\<close>

fun predict_levels ::
  "('x, 'c, 'd, 'v, 'p, 'r, 'b) collaborators \<Rightarrow> ('p, 'r, 'b) automl \<Rightarrow> nat \<Rightarrow> nat \<Rightarrow>
   'p list list \<Rightarrow> 'd \<Rightarrow> 'd option \<Rightarrow> (error + 'd option) \<times> ('d, 'p) event list" where
  "predict_levels E a n_levels n [] dataset blended_prediction = (Inr blended_prediction, [])"
| "predict_levels E a n_levels n (level # rest) dataset blended_prediction =
     (let level_predictions = map (\<lambda>ml_pipe. pipe_predict E ml_pipe dataset) level;
          evs1 = map PipePredict level
      in if n \<noteq> n_levels then
           (let cat = concatenate E level_predictions
            in if skip_conn a then
                 (case from_dataset E dataset cat of
                    None \<Rightarrow>
                      (Inl (TypeError
                         ''Can not convert prediction dataset type to input features. Set skip_conn=False''),
                       evs1 @ [Concatenate, FromDataset False])
                  | Some conv \<Rightarrow>
                      (let (res, evs2) =
                             predict_levels E a n_levels (Suc n) rest (concatenate E [conv, dataset])
                               blended_prediction
                       in (res, evs1 @ [Concatenate, FromDataset True, Concatenate] @ evs2)))
               else
                 (let (res, evs2) = predict_levels E a n_levels (Suc n) rest cat blended_prediction
                  in (res, evs1 @ [Concatenate] @ evs2)))
         else
           (let (res, evs2) =
                  predict_levels E a n_levels (Suc n) rest dataset
                    (Some (blender_predict E (blender a) (PList level_predictions)))
            in (res, evs1 @ [BlenderPredict (PList level_predictions)] @ evs2)))"

definition predict ::
  "('x, 'c, 'd, 'v, 'p, 'r, 'b) collaborators \<Rightarrow> ('p, 'r, 'b) automl \<Rightarrow> 'x \<Rightarrow>
   feature list option \<Rightarrow> (error + 'd option) \<times> ('p, 'r, 'b) automl \<times> ('d, 'p) event list" where
  "predict E a data features_names =
     (let dataset = read E (reader a) data features_names False
      in case levels a of
           None \<Rightarrow> (Inl (AttributeError ''levels''), a, [ReadData])
         | Some lvls \<Rightarrow>
             (let (res, evs) = predict_levels E a (length lvls) 1 lvls dataset None
              in (res, a, ReadData # evs)))"

subsection \<open>Reading the events\<close>

text \<open>
  The pipelines fitted in the level that is being processed, with their predictions,
  read off a sequence of events: \<^verbatim>\<open>'Layer n ...'\<close> opens a level with empty
  lists, each fit appends to them.
\<close>

fun fits_acc :: "('p \<times> 'd) list \<Rightarrow> ('d, 'p) event list \<Rightarrow> ('p \<times> 'd) list" where
  "fits_acc acc [] = acc"
| "fits_acc acc (Layer n # evs) = fits_acc [] evs"
| "fits_acc acc (PipeFit p d # evs) = fits_acc (acc @ [(p, d)]) evs"
| "fits_acc acc (e # evs) = fits_acc acc evs"

definition level_fits :: "('d, 'p) event list \<Rightarrow> ('p \<times> 'd) list" where
  "level_fits evs = fits_acc [] evs"

text \<open>The calls that \<^verbatim>\<open>predict\<close> may make.\<close>

fun inference_event :: "('d, 'p) event \<Rightarrow> bool" where
  "inference_event ReadData = True"
| "inference_event (PipePredict p) = True"
| "inference_event Concatenate = True"
| "inference_event (FromDataset b) = True"
| "inference_event (BlenderPredict lp) = True"
| "inference_event e = False"

fun is_pipe_fit :: "('d, 'p) event \<Rightarrow> bool" where
  "is_pipe_fit (PipeFit p d) = True"
| "is_pipe_fit e = False"

subsection \<open>Simple collaborators for concrete runs\<close>

text \<open>
  A small instance of the collaborators, used to run the orchestrator on concrete
  inputs. A dataset has a concrete class, feature names and optional folds. A
  pipeline predicts one column named after itself and reports the features of the
  dataset it was fitted on. The reader remembers the features it read and forgets
  the ones it is told to remove. The blender keeps the first pipeline. A dataset
  converts to its own class only.
\<close>

datatype ex_class = NumpyDataset | PandasDataset

record ex_dataset =
  ds_class :: ex_class
  ds_features :: "feature list"
  ds_folds :: "nat list option"

record ex_pipe =
  p_name :: string
  p_class :: ex_class
  p_used :: "feature list"

definition ex_concatenate :: "ex_dataset list \<Rightarrow> ex_dataset" where
  "ex_concatenate ds =
     (case ds of
        [] \<Rightarrow> \<lparr>ds_class = NumpyDataset, ds_features = [], ds_folds = None\<rparr>
      | d # _ \<Rightarrow> d\<lparr>ds_features := concat (map ds_features ds)\<rparr>)"

definition ex_from_dataset :: "ex_dataset \<Rightarrow> ex_dataset \<Rightarrow> ex_dataset option" where
  "ex_from_dataset target other =
     (if ds_class other = ds_class target then Some other else None)"

definition ex_prediction :: "ex_pipe \<Rightarrow> nat list option \<Rightarrow> ex_dataset" where
  "ex_prediction p fs =
     \<lparr>ds_class = p_class p, ds_features = [p_name p @ ''_prediction''], ds_folds = fs\<rparr>"

definition ex_first :: "ex_dataset preds \<Rightarrow> ex_dataset" where
  "ex_first lp =
     (case lp of
        PList (d # _) \<Rightarrow> d
      | PDataset d \<Rightarrow> d
      | _ \<Rightarrow> \<lparr>ds_class = NumpyDataset, ds_features = [], ds_folds = None\<rparr>)"

definition ex_collab ::
  "(ex_dataset, unit, ex_dataset, ex_dataset \<times> ex_dataset option, ex_pipe, feature list, unit)
   collaborators" where
  "ex_collab =
     \<lparr>fit_read = (\<lambda>r x fs rls. (x, ds_features x)),
      read = (\<lambda>r x fs add_array_attrs. x),
      used_features = (\<lambda>r. r),
      upd_used_features = (\<lambda>r remove. filter (\<lambda>f. f \<notin> set remove) r),
      folds = ds_folds,
      concatenate = ex_concatenate,
      from_dataset = ex_from_dataset,
      create_validation_iterator = (\<lambda>train valid cv_iter. (train, valid)),
      get_validation_data = (\<lambda>tv. case snd tv of None \<Rightarrow> fst tv | Some valid \<Rightarrow> valid),
      pipe_fit_predict =
        (\<lambda>p tv. (ex_prediction p (ds_folds (fst tv)), p\<lparr>p_used := ds_features (fst tv)\<rparr>)),
      pipe_predict = (\<lambda>p d. ex_prediction p None),
      pipe_used_features = p_used,
      upd_model_names = (\<lambda>p prefix. p\<lparr>p_name := prefix\<rparr>),
      blender_fit_predict =
        (\<lambda>b lp pipes. ((ex_first lp, case pipes of Some (p # _) \<Rightarrow> [p] | _ \<Rightarrow> []), b)),
      blender_predict = (\<lambda>b lp. ex_first lp),
      BestModelSelector = ()\<rparr>"

definition ex_pipe :: "ex_class \<Rightarrow> ex_pipe" where
  "ex_pipe c = \<lparr>p_name = ''pipe'', p_class = c, p_used = []\<rparr>"

definition ex_data :: "nat list option \<Rightarrow> ex_dataset" where
  "ex_data fs = \<lparr>ds_class = PandasDataset, ds_features = [''x1'', ''x2''], ds_folds = fs\<rparr>"

text \<open>
  An orchestrator as \<^verbatim>\<open>_initialize\<close> leaves it, for the given levels, timer and
  skip-connection flag.
\<close>

definition ex_automl ::
  "ex_pipe list list \<Rightarrow> timer \<Rightarrow> bool \<Rightarrow> (ex_pipe, feature list, unit) automl" where
  "ex_automl lvls t sc =
     \<lparr>timer = t, reader = [], u_levels = Some (name_levels ex_collab 0 lvls),
      blender = (), skip_conn = sc, levels = None\<rparr>"

text \<open>A timer whose budget is reported exceeded after the \<open>k\<close>-th fit, and never else.\<close>

definition ex_timer :: "nat \<Rightarrow> timer" where
  "ex_timer k =
     \<lparr>started = False, elapsed = 0,
      limit_exceeded_at = (\<lambda>i. i = k), child_out_at = (\<lambda>_. False)\<rparr>"

subsection \<open>Concrete inputs\<close>

text \<open>
  Level configurations for the simple collaborators, and the pipeline at position
  \<open>j\<close> of level \<open>i\<close> of such a configuration once it is named and has been fitted
  on the given features.
\<close>

definition ex_one_level :: "ex_pipe list list" where
  "ex_one_level = [[ex_pipe NumpyDataset, ex_pipe NumpyDataset]]"

definition ex_two_levels :: "ex_pipe list list" where
  "ex_two_levels = [[ex_pipe NumpyDataset, ex_pipe NumpyDataset], [ex_pipe NumpyDataset]]"

definition ex_pandas_levels :: "ex_pipe list list" where
  "ex_pandas_levels = [[ex_pipe PandasDataset, ex_pipe PandasDataset], [ex_pipe PandasDataset]]"

definition ex_fitted :: "nat \<Rightarrow> nat \<Rightarrow> feature list \<Rightarrow> ex_pipe" where
  "ex_fitted i j fs = \<lparr>p_name = model_name i j, p_class = NumpyDataset, p_used = fs\<rparr>"

section \<open>Vocabulary of the proofs\<close>

text \<open>Definitions that only the lemmas and the statements of the theorems use.\<close>

text \<open>The message of the \<^verbatim>\<open>TypeError\<close> raised when the conversion for the skip connection fails.\<close>

definition conv_msg :: string where
  "conv_msg = ''Can not convert prediction dataset type to input features. Set skip_conn=False''"

text \<open>The events of the inner loop: a fit, then a look at the timer.\<close>

fun fit_or_check :: "('d, 'p) event \<Rightarrow> bool" where
  "fit_or_check (PipeFit p d) = True"
| "fit_or_check (TimeLimitExceeded b) = True"
| "fit_or_check e = False"

text \<open>The events of the loop over the levels.\<close>

fun loop_event :: "('d, 'p) event \<Rightarrow> bool" where
  "loop_event (Layer n) = True"
| "loop_event (PipeFit p d) = True"
| "loop_event (TimeLimitExceeded b) = True"
| "loop_event (ChildOutOfTime b) = True"
| "loop_event Concatenate = True"
| "loop_event (FromDataset b) = True"
| "loop_event CreateValidationIterator = True"
| "loop_event e = False"

text \<open>The events of \<^verbatim>\<open>fit_predict\<close> before the loop over the levels, once both assertions have passed.\<close>

definition start_events :: "'x option \<Rightarrow> ('d, 'p) event list" where
  "start_events valid_data =
     [TimerStart, FitRead] @ (case valid_data of None \<Rightarrow> [] | Some _ \<Rightarrow> [ReadData]) @
     [CreateValidationIterator]"

text \<open>The orchestrator of \<^verbatim>\<open>fit_predict\<close> after the timer was started and the reader has read the training data.\<close>

definition fit_start ::
  "('x, 'c, 'd, 'v, 'p, 'r, 'b) collaborators \<Rightarrow> ('p, 'r, 'b) automl \<Rightarrow> 'x \<Rightarrow> roles \<Rightarrow>
   feature list option \<Rightarrow> ('p, 'r, 'b) automl" where
  "fit_start E a train_data rls train_features =
     a\<lparr>timer := timer_start (timer a),
       reader := snd (fit_read E (reader a) train_data train_features rls)\<rparr>"

text \<open>The validation iterator of the first level.\<close>

definition first_iterator ::
  "('x, 'c, 'd, 'v, 'p, 'r, 'b) collaborators \<Rightarrow> ('p, 'r, 'b) automl \<Rightarrow> 'x \<Rightarrow> roles \<Rightarrow>
   feature list option \<Rightarrow> 'c option \<Rightarrow> 'x option \<Rightarrow> feature list option \<Rightarrow> 'v" where
  "first_iterator E a train_data rls train_features cv_iter valid_data valid_features =
     create_validation_iterator E (fst (fit_read E (reader a) train_data train_features rls))
       (case valid_data of
          None \<Rightarrow> None
        | Some vd \<Rightarrow>
            Some (read E (snd (fit_read E (reader a) train_data train_features rls)) vd
                    valid_features True))
       cv_iter"

text \<open>The argument \<^verbatim>\<open>remove\<close> of \<^verbatim>\<open>upd_used_features\<close> for a reader and retained levels: the used features of the reader that no retained pipeline uses.\<close>

definition removed_features ::
  "('x, 'c, 'd, 'v, 'p, 'r, 'b) collaborators \<Rightarrow> 'r \<Rightarrow> 'p list list \<Rightarrow> feature list" where
  "removed_features E r lvls =
     filter (\<lambda>f. f \<notin> set (remdups (concat (map (pipe_used_features E) (concat lvls)))))
       (remdups (used_features E r))"

text \<open>The call of the blender in \<^verbatim>\<open>fit_predict\<close>.\<close>

fun is_blend :: "('d, 'p) event \<Rightarrow> bool" where
  "is_blend (BlenderFitPredict lp ps) = True"
| "is_blend e = False"

text \<open>A timer that never signals, neither for the global budget nor for a child.\<close>

definition never_out :: "timer \<Rightarrow> bool" where
  "never_out t \<longleftrightarrow> (\<forall>k. \<not> limit_exceeded_at t k \<and> \<not> child_out_at t k)"

text \<open>A retained level holds the pipelines of a configured level after their fit.\<close>

definition fitted_level ::
  "('x, 'c, 'd, 'v, 'p, 'r, 'b) collaborators \<Rightarrow> 'p list \<Rightarrow> 'p list \<Rightarrow> bool" where
  "fitted_level E retained level \<longleftrightarrow>
     (\<exists>tv. retained = map (\<lambda>p. snd (pipe_fit_predict E p tv)) level)"

section \<open>Lemmas\<close>

subsection \<open>The names of the pipelines\<close>

lemma digit_char_mem: "d < 10 \<Longrightarrow> digit_char d \<in> set ''0123456789''"
  unfolding digit_char_def by (rule nth_mem) simp

lemma digit_char_inj: "d < 10 \<Longrightarrow> e < 10 \<Longrightarrow> digit_char d = digit_char e \<Longrightarrow> d = e"
proof -
  assume d: "d < 10" and e: "e < 10" and eq: "digit_char d = digit_char e"
  have dist: "distinct ''0123456789''" by simp
  have "d < length ''0123456789''" "e < length ''0123456789''" using d e by simp_all
  with dist eq show "d = e"
    unfolding digit_char_def by (simp only: nth_eq_iff_index_eq)
qed

lemma str_nat_digits: "set (str_nat n) \<subseteq> set ''0123456789''"
proof (induction n rule: str_nat.induct)
  case (1 n)
  show ?case
  proof (cases "n < 10")
    case True
    then show ?thesis using digit_char_mem [of n] by (subst str_nat.simps) simp
  next
    case False
    have "n mod 10 < 10" by simp
    then have "digit_char (n mod 10) \<in> set ''0123456789''" by (rule digit_char_mem)
    with False "1.IH" show ?thesis by (subst str_nat.simps) simp
  qed
qed

lemma str_nat_no_underscore: "CHR ''_'' \<notin> set (str_nat n)"
  using str_nat_digits [of n] by auto

lemma str_nat_not_Nil: "str_nat n \<noteq> []"
  by (subst str_nat.simps) simp

lemma str_nat_inj: "str_nat m = str_nat n \<Longrightarrow> m = n"
proof (induction m arbitrary: n rule: str_nat.induct)
  case (1 m)
  show ?case
  proof (cases "m < 10")
    case m: True
    show ?thesis
    proof (cases "n < 10")
      case True
      with m "1.prems" show ?thesis
        by (simp add: str_nat.simps [of m] str_nat.simps [of n] digit_char_inj)
    next
      case False
      with m "1.prems" str_nat_not_Nil [of "n div 10"] show ?thesis
        by (simp add: str_nat.simps [of m] str_nat.simps [of n])
    qed
  next
    case m: False
    show ?thesis
    proof (cases "n < 10")
      case True
      with m "1.prems" str_nat_not_Nil [of "m div 10"] show ?thesis
        by (simp add: str_nat.simps [of m] str_nat.simps [of n])
    next
      case False
      with m "1.prems" have eq: "str_nat (m div 10) = str_nat (n div 10)"
        and dg: "digit_char (m mod 10) = digit_char (n mod 10)"
        by (simp_all add: str_nat.simps [of m] str_nat.simps [of n])
      from m eq have "m div 10 = n div 10" by (rule "1.IH")
      moreover from dg have "m mod 10 = n mod 10" by (simp add: digit_char_inj)
      ultimately show ?thesis by (metis div_mult_mod_eq)
    qed
  qed
qed

lemma append_sep_eq:
  assumes "c \<notin> set xs" "c \<notin> set ys" "xs @ c # us = ys @ c # vs"
  shows "xs = ys \<and> us = vs"
  using assms
proof (induction xs arbitrary: ys)
  case Nil
  then show ?case by (cases ys) auto
next
  case (Cons x xs)
  then show ?case by (cases ys) auto
qed

lemma model_name_inj: "model_name i j = model_name i' j' \<Longrightarrow> i = i' \<and> j = j'"
proof -
  assume "model_name i j = model_name i' j'"
  then have "str_nat i @ CHR ''_'' # (''Pipe_'' @ str_nat j) = str_nat i' @ CHR ''_'' # (''Pipe_'' @ str_nat j')"
    by (simp add: model_name_def)
  then have "str_nat i = str_nat i' \<and> ''Pipe_'' @ str_nat j = ''Pipe_'' @ str_nat j'"
    by (rule append_sep_eq [OF str_nat_no_underscore str_nat_no_underscore])
  then show ?thesis by (simp add: str_nat_inj)
qed

lemma length_name_pipes: "length (name_pipes E i j lvl) = length lvl"
  by (induction lvl arbitrary: j) simp_all

lemma nth_name_pipes:
  "k < length lvl \<Longrightarrow> name_pipes E i j lvl ! k = upd_model_names E (lvl ! k) (model_name i (j + k))"
proof (induction lvl arbitrary: j k)
  case Nil
  then show ?case by simp
next
  case (Cons p lvl)
  then show ?case by (cases k) simp_all
qed

lemma length_name_levels: "length (name_levels E i lvls) = length lvls"
  by (induction lvls arbitrary: i) simp_all

lemma nth_name_levels:
  "k < length lvls \<Longrightarrow> name_levels E i lvls ! k = name_pipes E (i + k) 0 (lvls ! k)"
proof (induction lvls arbitrary: i k)
  case Nil
  then show ?case by simp
next
  case (Cons l lvls)
  then show ?case by (cases k) simp_all
qed

subsection \<open>The loop over the pipelines and the body of the loop over the levels\<close>

lemma fits_acc_fit_or_check:
  "\<forall>e \<in> set evs. fit_or_check e \<Longrightarrow> fits_acc acc evs = acc @ fits_acc [] evs"
proof (induction evs arbitrary: acc)
  case Nil
  then show ?case by simp
next
  case (Cons e evs)
  show ?case
  proof (cases e)
    case (PipeFit p d)
    from Cons.prems have foc: "\<forall>e \<in> set evs. fit_or_check e" by simp
    have a: "fits_acc (acc @ [(p, d)]) evs = (acc @ [(p, d)]) @ fits_acc [] evs"
      using foc by (rule Cons.IH)
    have b: "fits_acc [(p, d)] evs = [(p, d)] @ fits_acc [] evs"
      using foc by (rule Cons.IH)
    have "fits_acc acc (e # evs) = fits_acc (acc @ [(p, d)]) evs" by (simp add: PipeFit)
    also have "\<dots> = acc @ ([(p, d)] @ fits_acc [] evs)" by (simp only: a append_assoc)
    also have "\<dots> = acc @ fits_acc [(p, d)] evs" by (simp only: b)
    also have "\<dots> = acc @ fits_acc [] (e # evs)" by (simp add: PipeFit)
    finally show ?thesis .
  next
    case (TimeLimitExceeded b)
    from Cons.prems have "\<forall>e \<in> set evs. fit_or_check e" by simp
    then have "fits_acc acc evs = acc @ fits_acc [] evs" by (rule Cons.IH)
    then show ?thesis by (simp add: TimeLimitExceeded)
  qed (use Cons.prems in simp_all)
qed

lemma fit_pipes_shape:
  "fit_pipes E tv level lp ps t = ((lp', ps', t', broke), evs) \<Longrightarrow>
     (\<forall>e \<in> set evs. fit_or_check e) \<and>
     lp' = lp @ map snd (fits_acc [] evs) \<and>
     ps' = ps @ map fst (fits_acc [] evs) \<and>
     (broke \<longrightarrow> (\<exists>pre. evs = pre @ [TimeLimitExceeded True] \<and> TimeLimitExceeded True \<notin> set pre)) \<and>
     (broke \<longrightarrow> fits_acc [] evs \<noteq> []) \<and>
     (\<not> broke \<longrightarrow> TimeLimitExceeded True \<notin> set evs)"
proof (induction level arbitrary: lp ps t evs)
  case Nil
  then show ?case by simp
next
  case (Cons p level)
  obtain d fitted where fp: "pipe_fit_predict E p tv = (d, fitted)"
    by (cases "pipe_fit_predict E p tv")
  define t1 where "t1 = t\<lparr>elapsed := Suc (elapsed t)\<rparr>"
  show ?case
  proof (cases "time_limit_exceeded t1")
    case True
    with Cons.prems fp have "lp' = lp @ [d]" "ps' = ps @ [fitted]" "broke"
      "evs = [PipeFit fitted d, TimeLimitExceeded True]"
      by (simp_all add: t1_def)
    then show ?thesis by simp
  next
    case False
    obtain evs0 where rec: "fit_pipes E tv level (lp @ [d]) (ps @ [fitted]) t1 = ((lp', ps', t', broke), evs0)"
      and evs: "evs = PipeFit fitted d # TimeLimitExceeded False # evs0"
      using Cons.prems fp False by (auto simp: t1_def split: prod.splits)
    note ih = Cons.IH [OF rec]
    from ih have foc: "\<forall>e \<in> set evs0. fit_or_check e" by blast
    have fa: "fits_acc [] evs = (fitted, d) # fits_acc [] evs0"
      using fits_acc_fit_or_check [OF foc, of "[(fitted, d)]"] by (simp add: evs)
    have br: "broke \<longrightarrow> (\<exists>pre. evs = pre @ [TimeLimitExceeded True] \<and> TimeLimitExceeded True \<notin> set pre)"
    proof
      assume broke
      with ih obtain pre where "evs0 = pre @ [TimeLimitExceeded True]" "TimeLimitExceeded True \<notin> set pre"
        by blast
      then have "evs = (PipeFit fitted d # TimeLimitExceeded False # pre) @ [TimeLimitExceeded True] \<and>
                 TimeLimitExceeded True \<notin> set (PipeFit fitted d # TimeLimitExceeded False # pre)"
        by (simp add: evs)
      then show "\<exists>pre. evs = pre @ [TimeLimitExceeded True] \<and> TimeLimitExceeded True \<notin> set pre"
        by blast
    qed
    from ih foc fa br show ?thesis by (simp add: evs)
  qed
qed

lemma level_body_unfold:
  assumes fp: "fit_pipes E tv level [] [] (timer a) = ((preds, pipes, t1, broke), evs1)"
  shows "level_body E N n level tv a =
     (if broke \<or> child_out_of_time t1 \<or> n = N then
        (Break, PList preds, pipes, a\<lparr>timer := t1\<rparr>,
         Layer n # evs1 @ (if broke then [] else [ChildOutOfTime (child_out_of_time t1)]))
      else
        (case levels a of
           None \<Rightarrow>
             (Raise (AttributeError ''levels''), PList preds, pipes, a\<lparr>timer := t1\<rparr>,
              Layer n # evs1 @ [ChildOutOfTime False])
         | Some lvls \<Rightarrow>
             if skip_conn a then
               (case from_dataset E (get_validation_data E tv) (concatenate E preds) of
                  None \<Rightarrow>
                    (Raise (TypeError conv_msg), PDataset (concatenate E preds), pipes,
                     a\<lparr>timer := t1, levels := Some (lvls @ [pipes])\<rparr>,
                     Layer n # evs1 @ [ChildOutOfTime False, Concatenate, FromDataset False])
                | Some conv \<Rightarrow>
                    (Next (create_validation_iterator E
                             (concatenate E [conv, get_validation_data E tv]) None None),
                     PDataset (concatenate E [conv, get_validation_data E tv]), pipes,
                     a\<lparr>timer := t1, levels := Some (lvls @ [pipes])\<rparr>,
                     Layer n # evs1 @ [ChildOutOfTime False, Concatenate, FromDataset True,
                                       Concatenate, CreateValidationIterator]))
             else
               (Next (create_validation_iterator E (concatenate E preds) None None),
                PDataset (concatenate E preds), pipes,
                a\<lparr>timer := t1, levels := Some (lvls @ [pipes])\<rparr>,
                Layer n # evs1 @ [ChildOutOfTime False, Concatenate, CreateValidationIterator])))"
  by (simp add: level_body_def fp Let_def conv_msg_def split: option.splits)

lemma fit_or_check_loop_event: "fit_or_check e \<Longrightarrow> loop_event e"
  by (cases e) simp_all

lemma fits_acc_append: "fits_acc acc (xs @ ys) = fits_acc (fits_acc acc xs) ys"
  by (induction acc xs rule: fits_acc.induct) simp_all

lemma level_body_elim:
  assumes "level_body E N n level tv a = (fl, lp, pipes, a', evs)"
  obtains preds t1 broke evs1 where
    "fit_pipes E tv level [] [] (timer a) = ((preds, pipes, t1, broke), evs1)"
    "level_body E N n level tv a = (fl, lp, pipes, a', evs)"
proof -
  obtain preds pipes0 t1 broke evs1 where
    fp: "fit_pipes E tv level [] [] (timer a) = ((preds, pipes0, t1, broke), evs1)"
    by (cases "fit_pipes E tv level [] [] (timer a)") auto
  have "pipes0 = pipes"
    using assms unfolding level_body_unfold [OF fp]
    by (auto split: if_splits option.splits)
  with fp assms that show thesis by blast
qed

lemma level_body_events:
  assumes "level_body E N n level tv a = (fl, lp, pipes, a', evs)"
  shows "\<exists>es. evs = Layer n # es \<and> (\<forall>m. Layer m \<notin> set es) \<and>
              pipes = map fst (fits_acc [] es) \<and>
              (fl = Break \<longrightarrow> lp = PList (map snd (fits_acc [] es))) \<and>
              (\<forall>e \<in> set es. loop_event e)"
proof -
  from assms obtain preds t1 broke evs1 where
    fp: "fit_pipes E tv level [] [] (timer a) = ((preds, pipes, t1, broke), evs1)"
    by (rule level_body_elim)
  note sh = fit_pipes_shape [OF fp]
  from sh have foc: "\<forall>e \<in> set evs1. fit_or_check e" by blast
  then have le: "\<forall>e \<in> set evs1. loop_event e" by (blast intro: fit_or_check_loop_event)
  from foc have nl: "\<forall>m. Layer m \<notin> set evs1" by fastforce
  from sh have pr: "preds = map snd (fits_acc [] evs1)" and pi: "pipes = map fst (fits_acc [] evs1)"
    by simp_all
  obtain tl where evs: "evs = Layer n # evs1 @ tl"
    and tl: "\<forall>e \<in> set tl. loop_event e \<and> \<not> is_pipe_fit e \<and> (\<forall>m. e \<noteq> Layer m)"
    and fa: "\<forall>acc. fits_acc acc tl = acc"
    and br: "fl = Break \<longrightarrow> lp = PList preds"
    using assms unfolding level_body_unfold [OF fp]
    by (auto split: if_splits option.splits)
  have "fits_acc [] (evs1 @ tl) = fits_acc [] evs1"
    by (simp add: fits_acc_append fa)
  with evs tl le nl pr pi br show ?thesis by auto
qed

lemma level_body_exceeded:
  assumes "level_body E N n level tv a = (fl, lp, pipes, a', evs)"
    and "TimeLimitExceeded True \<in> set evs"
  shows "fl = Break \<and> pipes \<noteq> [] \<and>
         (\<exists>pre. evs = pre @ [TimeLimitExceeded True] \<and> TimeLimitExceeded True \<notin> set pre)"
proof -
  from assms(1) obtain preds t1 broke evs1 where
    fp: "fit_pipes E tv level [] [] (timer a) = ((preds, pipes, t1, broke), evs1)"
    by (rule level_body_elim)
  note sh = fit_pipes_shape [OF fp]
  have broke: broke
  proof (rule ccontr)
    assume "\<not> broke"
    with sh have "TimeLimitExceeded True \<notin> set evs1" by blast
    with \<open>\<not> broke\<close> assms show False
      unfolding level_body_unfold [OF fp] by (auto split: if_splits option.splits)
  qed
  with sh obtain pre where pre: "evs1 = pre @ [TimeLimitExceeded True]" "TimeLimitExceeded True \<notin> set pre"
    by blast
  from broke assms(1) have "fl = Break" "evs = Layer n # evs1"
    unfolding level_body_unfold [OF fp] by simp_all
  with pre have "fl = Break \<and> evs = (Layer n # pre) @ [TimeLimitExceeded True] \<and>
                 TimeLimitExceeded True \<notin> set (Layer n # pre)"
    by simp
  moreover from broke sh have "pipes \<noteq> []" by simp
  ultimately show ?thesis by blast
qed

lemma level_body_no_conv_in_fits:
  assumes "fit_pipes E tv level lp ps t = ((preds, pipes, t1, broke), evs1)"
  shows "FromDataset b \<notin> set evs1"
proof
  assume "FromDataset b \<in> set evs1"
  moreover from fit_pipes_shape [OF assms] have "\<forall>e \<in> set evs1. fit_or_check e" by blast
  ultimately have "fit_or_check (FromDataset b :: ('a, 'b) event)" by blast
  then show False by simp
qed

lemma level_body_conv_fail:
  assumes "level_body E N n level tv a = (fl, lp, pipes, a', evs)"
    and "FromDataset False \<in> set evs"
  shows "fl = Raise (TypeError conv_msg) \<and>
         (\<exists>pre. evs = pre @ [FromDataset False] \<and> FromDataset False \<notin> set pre)"
proof -
  from assms(1) obtain preds t1 broke evs1 where
    fp: "fit_pipes E tv level [] [] (timer a) = ((preds, pipes, t1, broke), evs1)"
    by (rule level_body_elim)
  note nf = level_body_no_conv_in_fits [OF fp]
  from assms nf have "fl = Raise (TypeError conv_msg) \<and>
      evs = (Layer n # evs1 @ [ChildOutOfTime False, Concatenate]) @ [FromDataset False]"
    unfolding level_body_unfold [OF fp] by (auto split: if_splits option.splits)
  moreover have "FromDataset False \<notin> set (Layer n # evs1 @ [ChildOutOfTime False, Concatenate])"
    using nf by simp
  ultimately show ?thesis by blast
qed

lemma level_body_conv_raise:
  assumes "level_body E N n level tv a = (Raise (TypeError m), lp, pipes, a', evs)"
  shows "m = conv_msg \<and> FromDataset False \<in> set evs"
proof -
  from assms(1) obtain preds t1 broke evs1 where
    fp: "fit_pipes E tv level [] [] (timer a) = ((preds, pipes, t1, broke), evs1)"
    by (rule level_body_elim)
  from assms show ?thesis
    unfolding level_body_unfold [OF fp] by (auto split: if_splits option.splits)
qed

lemma level_body_conv_skip:
  assumes "level_body E N n level tv a = (fl, lp, pipes, a', evs)"
    and "FromDataset b \<in> set evs"
  shows "skip_conn a"
proof -
  from assms(1) obtain preds t1 broke evs1 where
    fp: "fit_pipes E tv level [] [] (timer a) = ((preds, pipes, t1, broke), evs1)"
    by (rule level_body_elim)
  note nf = level_body_no_conv_in_fits [OF fp]
  from assms nf show ?thesis
    unfolding level_body_unfold [OF fp] by (auto split: if_splits option.splits)
qed

lemma level_body_conv_next:
  assumes "level_body E N n level tv a = (Next tv', lp, pipes, a', evs)"
  shows "FromDataset False \<notin> set evs"
proof -
  from assms(1) obtain preds t1 broke evs1 where
    fp: "fit_pipes E tv level [] [] (timer a) = ((preds, pipes, t1, broke), evs1)"
    by (rule level_body_elim)
  note nf = level_body_no_conv_in_fits [OF fp]
  from assms nf show ?thesis
    unfolding level_body_unfold [OF fp] by (auto split: if_splits option.splits)
qed

lemma level_body_raise:
  assumes "level_body E N n level tv a = (Raise e, lp, pipes, a', evs)"
  shows "e = TypeError conv_msg \<or> e = AttributeError ''levels'' \<and> levels a = None"
proof -
  from assms(1) obtain preds t1 broke evs1 where
    fp: "fit_pipes E tv level [] [] (timer a) = ((preds, pipes, t1, broke), evs1)"
    by (rule level_body_elim)
  from assms show ?thesis
    unfolding level_body_unfold [OF fp] by (auto split: if_splits option.splits)
qed

lemma level_body_frame:
  assumes "level_body E N n level tv a = (fl, lp, pipes, a', evs)"
  shows "u_levels a' = u_levels a \<and> reader a' = reader a \<and> blender a' = blender a \<and>
         skip_conn a' = skip_conn a \<and> (levels a \<noteq> None \<longrightarrow> levels a' \<noteq> None) \<and>
         (n = N \<longrightarrow> fl = Break) \<and> (fl = Break \<longrightarrow> levels a' = levels a) \<and>
         (\<forall>tv'. fl = Next tv' \<longrightarrow> (\<exists>lvls. levels a = Some lvls \<and> levels a' = Some (lvls @ [pipes])))"
proof -
  from assms(1) obtain preds t1 broke evs1 where
    fp: "fit_pipes E tv level [] [] (timer a) = ((preds, pipes, t1, broke), evs1)"
    by (rule level_body_elim)
  show ?thesis
    using assms unfolding level_body_unfold [OF fp]
    by (auto split: if_splits option.splits)
qed

subsection \<open>The loop over the levels\<close>

lemma fit_levels_Cons_cases:
  assumes "fit_levels E N n (level # rest) tv lp ps a = (res, a', evs)"
  obtains
    (Raise) e lp1 pipes1 where
      "level_body E N n level tv a = (Raise e, lp1, pipes1, a', evs)" "res = Inl e"
  | (Break) lp1 pipes1 where
      "level_body E N n level tv a = (Break, lp1, pipes1, a', evs)" "res = Inr (lp1, Some pipes1)"
  | (Next) tv1 lp1 pipes1 a1 evs1 evs2 where
      "level_body E N n level tv a = (Next tv1, lp1, pipes1, a1, evs1)"
      "fit_levels E N (Suc n) rest tv1 lp1 (Some pipes1) a1 = (res, a', evs2)"
      "evs = evs1 @ evs2"
proof -
  obtain fl lp1 pipes1 a1 evs1 where lb: "level_body E N n level tv a = (fl, lp1, pipes1, a1, evs1)"
    by (cases "level_body E N n level tv a") auto
  show thesis
  proof (cases fl)
    case (Next tv1)
    obtain res2 a2 evs2 where fl2: "fit_levels E N (Suc n) rest tv1 lp1 (Some pipes1) a1 = (res2, a2, evs2)"
      by (cases "fit_levels E N (Suc n) rest tv1 lp1 (Some pipes1) a1") auto
    with assms lb Next have "res2 = res" "a2 = a'" "evs = evs1 @ evs2" by simp_all
    with lb Next fl2 that(3) show thesis by blast
  next
    case Break
    with assms lb have "res = Inr (lp1, Some pipes1)" "a1 = a'" "evs1 = evs" by simp_all
    with lb Break that(2) show thesis by blast
  next
    case (Raise e)
    with assms lb have "res = Inl e" "a1 = a'" "evs1 = evs" by simp_all
    with lb Raise that(1) show thesis by blast
  qed
qed

lemma fit_levels_events:
  "fit_levels E N n lvls tv lp ps a = (res, a', evs) \<Longrightarrow>
     (\<forall>e \<in> set evs. loop_event e) \<and> (lvls \<noteq> [] \<longrightarrow> (\<exists>es. evs = Layer n # es)) \<and>
     (lvls = [] \<longrightarrow> evs = [])"
proof (induction lvls arbitrary: n tv lp ps a evs)
  case Nil
  then show ?case by simp
next
  case (Cons level rest)
  from Cons.prems show ?case
  proof (cases rule: fit_levels_Cons_cases)
    case (Raise e lp1 pipes1)
    from level_body_events [OF Raise(1)] show ?thesis by auto
  next
    case (Break lp1 pipes1)
    from level_body_events [OF Break(1)] show ?thesis by auto
  next
    case (Next tv1 lp1 pipes1 a1 evs1 evs2)
    from level_body_events [OF Next(1)] Cons.IH [OF Next(2)] Next(3) show ?thesis by auto
  qed
qed

lemma level_fits_Layer: "level_fits (pre @ Layer n # es) = level_fits (Layer n # es)"
  by (simp add: level_fits_def fits_acc_append)

lemma level_fits_snoc_check [simp]: "level_fits (pre @ [TimeLimitExceeded b]) = level_fits pre"
  by (simp add: level_fits_def fits_acc_append)

lemma fit_levels_exceeded:
  "fit_levels E N n lvls tv lp ps a = (res, a', evs) \<Longrightarrow> TimeLimitExceeded True \<in> set evs \<Longrightarrow>
     (\<exists>pre. evs = pre @ [TimeLimitExceeded True] \<and> TimeLimitExceeded True \<notin> set pre) \<and>
     level_fits evs \<noteq> [] \<and>
     res = Inr (PList (map snd (level_fits evs)), Some (map fst (level_fits evs)))"
proof (induction lvls arbitrary: n tv lp ps a evs)
  case Nil
  then show ?case by simp
next
  case (Cons level rest)
  from Cons.prems(1) show ?case
  proof (cases rule: fit_levels_Cons_cases)
    case (Raise e lp1 pipes1)
    with level_body_exceeded [OF Raise(1) Cons.prems(2)] show ?thesis by simp
  next
    case (Break lp1 pipes1)
    from level_body_events [OF Break(1)] obtain es where es: "evs = Layer n # es"
      and r: "pipes1 = map fst (fits_acc [] es)" "lp1 = PList (map snd (fits_acc [] es))"
      by blast
    have "level_fits evs = fits_acc [] es" by (simp add: level_fits_def es)
    with r Break(2) level_body_exceeded [OF Break(1) Cons.prems(2)] show ?thesis by simp
  next
    case (Next tv1 lp1 pipes1 a1 evs1 evs2)
    have n1: "TimeLimitExceeded True \<notin> set evs1"
      using level_body_exceeded [OF Next(1)] by auto
    with Cons.prems(2) Next(3) have in2: "TimeLimitExceeded True \<in> set evs2" by simp
    from Cons.IH [OF Next(2) in2] obtain pre where
      pre: "evs2 = pre @ [TimeLimitExceeded True]" "TimeLimitExceeded True \<notin> set pre"
      and res: "res = Inr (PList (map snd (level_fits evs2)), Some (map fst (level_fits evs2)))"
      and ne: "level_fits evs2 \<noteq> []"
      by blast
    from in2 fit_levels_events [OF Next(2)] obtain es where es: "evs2 = Layer (Suc n) # es"
      by (cases rest) auto
    have lf: "level_fits evs = level_fits evs2"
      unfolding Next(3) es by (rule level_fits_Layer)
    have b: "evs = (evs1 @ pre) @ [TimeLimitExceeded True] \<and>
                   TimeLimitExceeded True \<notin> set (evs1 @ pre)"
      using pre n1 Next(3) by simp
    then have "\<exists>pre. evs = pre @ [TimeLimitExceeded True] \<and> TimeLimitExceeded True \<notin> set pre"
      by blast
    with res lf ne show ?thesis by simp
  qed
qed

lemma fit_levels_broke:
  "fit_levels E N n lvls tv lp ps a = (Inr (lp', ps'), a', evs) \<Longrightarrow> n + length lvls = Suc N \<Longrightarrow>
     lvls \<noteq> [] \<Longrightarrow>
     lp' = PList (map snd (level_fits evs)) \<and> ps' = Some (map fst (level_fits evs))"
proof (induction lvls arbitrary: n tv lp ps a evs)
  case Nil
  then show ?case by simp
next
  case (Cons level rest)
  from Cons.prems(1) show ?case
  proof (cases rule: fit_levels_Cons_cases)
    case (Raise e lp1 pipes1)
    then show ?thesis by simp
  next
    case (Break lp1 pipes1)
    from level_body_events [OF Break(1)] obtain es where es: "evs = Layer n # es"
      and r: "pipes1 = map fst (fits_acc [] es)" "lp1 = PList (map snd (fits_acc [] es))"
      by blast
    have "level_fits evs = fits_acc [] es" by (simp add: level_fits_def es)
    with r Break(2) show ?thesis by simp
  next
    case (Next tv1 lp1 pipes1 a1 evs1 evs2)
    have "n \<noteq> N" using level_body_frame [OF Next(1)] by auto
    with Cons.prems(2) have rest: "rest \<noteq> []" "Suc n + length rest = Suc N" by auto
    from Cons.IH [OF Next(2) rest(2) rest(1)]
    have res: "lp' = PList (map snd (level_fits evs2)) \<and> ps' = Some (map fst (level_fits evs2))" .
    from rest(1) fit_levels_events [OF Next(2)] obtain es where es: "evs2 = Layer (Suc n) # es"
      by auto
    have "level_fits evs = level_fits evs2"
      unfolding Next(3) es by (rule level_fits_Layer)
    with res show ?thesis by simp
  qed
qed

lemma fit_levels_conv_fail:
  "fit_levels E N n lvls tv lp ps a = (res, a', evs) \<Longrightarrow> FromDataset False \<in> set evs \<Longrightarrow>
     res = Inl (TypeError conv_msg) \<and>
     (\<exists>pre. evs = pre @ [FromDataset False] \<and> FromDataset False \<notin> set pre)"
proof (induction lvls arbitrary: n tv lp ps a evs)
  case Nil
  then show ?case by simp
next
  case (Cons level rest)
  from Cons.prems(1) show ?case
  proof (cases rule: fit_levels_Cons_cases)
    case (Raise e lp1 pipes1)
    from level_body_conv_fail [OF Raise(1) Cons.prems(2)] Raise(2) show ?thesis by simp
  next
    case (Break lp1 pipes1)
    from level_body_conv_fail [OF Break(1) Cons.prems(2)] show ?thesis by simp
  next
    case (Next tv1 lp1 pipes1 a1 evs1 evs2)
    from level_body_conv_next [OF Next(1)] have n1: "FromDataset False \<notin> set evs1" .
    with Cons.prems(2) Next(3) have "FromDataset False \<in> set evs2" by simp
    from Cons.IH [OF Next(2) this] obtain pre where r: "res = Inl (TypeError conv_msg)"
      and pre: "evs2 = pre @ [FromDataset False]" "FromDataset False \<notin> set pre"
      by blast
    from pre n1 Next(3) have "evs = (evs1 @ pre) @ [FromDataset False] \<and>
        FromDataset False \<notin> set (evs1 @ pre)" by simp
    then have "\<exists>pre. evs = pre @ [FromDataset False] \<and> FromDataset False \<notin> set pre"
      by blast
    with r show ?thesis by simp
  qed
qed

lemma fit_levels_conv_raise:
  "fit_levels E N n lvls tv lp ps a = (Inl (TypeError m), a', evs) \<Longrightarrow>
     m = conv_msg \<and> FromDataset False \<in> set evs"
proof (induction lvls arbitrary: n tv lp ps a evs)
  case Nil
  then show ?case by simp
next
  case (Cons level rest)
  from Cons.prems(1) show ?case
  proof (cases rule: fit_levels_Cons_cases)
    case (Raise e lp1 pipes1)
    then have "level_body E N n level tv a = (Raise (TypeError m), lp1, pipes1, a', evs)" by simp
    then show ?thesis by (rule level_body_conv_raise)
  next
    case (Break lp1 pipes1)
    then show ?thesis by simp
  next
    case (Next tv1 lp1 pipes1 a1 evs1 evs2)
    from Cons.IH [OF Next(2)] Next(3) show ?thesis by simp
  qed
qed

lemma fit_levels_conv_skip:
  "fit_levels E N n lvls tv lp ps a = (res, a', evs) \<Longrightarrow> FromDataset b \<in> set evs \<Longrightarrow>
     skip_conn a"
proof (induction lvls arbitrary: n tv lp ps a evs)
  case Nil
  then show ?case by simp
next
  case (Cons level rest)
  from Cons.prems(1) show ?case
  proof (cases rule: fit_levels_Cons_cases)
    case (Raise e lp1 pipes1)
    from level_body_conv_skip [OF Raise(1) Cons.prems(2)] show ?thesis .
  next
    case (Break lp1 pipes1)
    from level_body_conv_skip [OF Break(1) Cons.prems(2)] show ?thesis .
  next
    case (Next tv1 lp1 pipes1 a1 evs1 evs2)
    from Cons.prems(2) Next(3) have "FromDataset b \<in> set evs1 \<or> FromDataset b \<in> set evs2"
      by simp
    then show ?thesis
    proof
      assume "FromDataset b \<in> set evs1"
      with Next(1) show ?thesis by (rule level_body_conv_skip)
    next
      assume "FromDataset b \<in> set evs2"
      with Next(2) have "skip_conn a1" by (rule Cons.IH)
      with level_body_frame [OF Next(1)] show ?thesis by simp
    qed
  qed
qed

lemma fit_levels_raise:
  "fit_levels E N n lvls tv lp ps a = (Inl e, a', evs) \<Longrightarrow>
     e = TypeError conv_msg \<or> e = AttributeError ''levels'' \<and> levels a = None"
proof (induction lvls arbitrary: n tv lp ps a evs)
  case Nil
  then show ?case by simp
next
  case (Cons level rest)
  from Cons.prems(1) show ?case
  proof (cases rule: fit_levels_Cons_cases)
    case (Raise e1 lp1 pipes1)
    then have "level_body E N n level tv a = (Raise e, lp1, pipes1, a', evs)" by simp
    then show ?thesis by (rule level_body_raise)
  next
    case (Break lp1 pipes1)
    then show ?thesis by simp
  next
    case (Next tv1 lp1 pipes1 a1 evs1 evs2)
    from level_body_frame [OF Next(1)] have "levels a1 \<noteq> None" by auto
    with Cons.IH [OF Next(2)] show ?thesis by simp
  qed
qed

lemma fit_levels_frame:
  "fit_levels E N n lvls tv lp ps a = (res, a', evs) \<Longrightarrow>
     u_levels a' = u_levels a \<and> reader a' = reader a \<and> blender a' = blender a \<and>
     skip_conn a' = skip_conn a \<and> (levels a \<noteq> None \<longrightarrow> levels a' \<noteq> None)"
proof (induction lvls arbitrary: n tv lp ps a evs)
  case Nil
  then show ?case by simp
next
  case (Cons level rest)
  from Cons.prems(1) show ?case
  proof (cases rule: fit_levels_Cons_cases)
    case (Raise e lp1 pipes1)
    from level_body_frame [OF Raise(1)] show ?thesis by simp
  next
    case (Break lp1 pipes1)
    from level_body_frame [OF Break(1)] show ?thesis by simp
  next
    case (Next tv1 lp1 pipes1 a1 evs1 evs2)
    from level_body_frame [OF Next(1)] Cons.IH [OF Next(2)] show ?thesis by simp
  qed
qed

subsection \<open>The cases of \<^verbatim>\<open>fit_predict\<close>\<close>

lemma blend_and_finish_ok:
  assumes "levels a = Some lvls" "u_levels a = Some ul"
    and "blender_fit_predict E (blender a) lp ps = ((blended, last_pipes), b1)"
  shows "blend_and_finish E lp ps a =
     (Inr blended,
      a\<lparr>blender := b1, levels := Some (lvls @ [last_pipes]),
        reader := upd_used_features E (reader a) (removed_features E (reader a) (lvls @ [last_pipes])),
        u_levels := None\<rparr>,
      [BlenderFitPredict lp ps,
       UpdUsedFeatures (removed_features E (reader a) (lvls @ [last_pipes]))])"
  using assms
  by (simp add: blend_and_finish_def collect_used_feats_def removed_features_def Let_def)

lemma fit_predict_unfold:
  "fit_predict E a x rls tf cv vd vf =
     (case u_levels a of
        None \<Rightarrow> (Inl (AttributeError ''_levels''), fit_start E a x rls tf, [TimerStart, FitRead])
      | Some lvls \<Rightarrow>
          if 1 < length lvls \<and> folds E (fst (fit_read E (reader a) x tf rls)) = None then
            (Inl (AssertionError ''Not possible to fit more than 1 level without cv folds''),
             fit_start E a x rls tf, [TimerStart, FitRead])
          else if 1 < length lvls \<and> vd \<noteq> None then
            (Inl (AssertionError ''Not possible to fit more than 1 level with holdout validation''),
             fit_start E a x rls tf, [TimerStart, FitRead])
          else
            (case fit_levels E (length lvls) 1 lvls (first_iterator E a x rls tf cv vd vf) PNone None
                    ((fit_start E a x rls tf)\<lparr>levels := Some []\<rparr>) of
               (Inl e, a4, evs3) \<Rightarrow> (Inl e, a4, start_events vd @ evs3)
             | (Inr (lp, ps), a4, evs3) \<Rightarrow>
                 (case blend_and_finish E lp ps a4 of
                    (res, a5, evs4) \<Rightarrow> (res, a5, start_events vd @ evs3 @ evs4))))"
proof -
  obtain td r1 where fr: "fit_read E (reader a) x tf rls = (td, r1)"
    by (cases "fit_read E (reader a) x tf rls")
  show ?thesis
  proof (cases "u_levels a")
    case None
    then show ?thesis
      by (simp add: fit_predict_def fit_start_def Let_def fr)
  next
    case (Some lvls)
    then show ?thesis
      by (cases vd)
        (simp_all add: fit_predict_def fit_start_def first_iterator_def start_events_def Let_def
            fr not_le split: prod.splits sum.splits)
  qed
qed

lemma fit_predict_cases:
  assumes "fit_predict E a x rls tf cv vd vf = (out, a', evs)"
  obtains
    (NoAttr) "u_levels a = None" "out = Inl (AttributeError ''_levels'')"
      "evs = [TimerStart, FitRead]" "a' = fit_start E a x rls tf"
  | (NoFolds) lvls where "u_levels a = Some lvls" "1 < length lvls"
      "folds E (fst (fit_read E (reader a) x tf rls)) = None"
      "out = Inl (AssertionError ''Not possible to fit more than 1 level without cv folds'')"
      "evs = [TimerStart, FitRead]" "a' = fit_start E a x rls tf"
  | (Holdout) lvls where "u_levels a = Some lvls" "1 < length lvls"
      "folds E (fst (fit_read E (reader a) x tf rls)) \<noteq> None" "vd \<noteq> None"
      "out = Inl (AssertionError ''Not possible to fit more than 1 level with holdout validation'')"
      "evs = [TimerStart, FitRead]" "a' = fit_start E a x rls tf"
  | (Raised) lvls e evs3 where "u_levels a = Some lvls"
      "length lvls \<le> 1 \<or> folds E (fst (fit_read E (reader a) x tf rls)) \<noteq> None \<and> vd = None"
      "fit_levels E (length lvls) 1 lvls (first_iterator E a x rls tf cv vd vf) PNone None
         ((fit_start E a x rls tf)\<lparr>levels := Some []\<rparr>) = (Inl e, a', evs3)"
      "out = Inl e" "evs = start_events vd @ evs3"
  | (Blended) lvls lp ps a4 evs3 ret blended last_pipes b1 where "u_levels a = Some lvls"
      "length lvls \<le> 1 \<or> folds E (fst (fit_read E (reader a) x tf rls)) \<noteq> None \<and> vd = None"
      "fit_levels E (length lvls) 1 lvls (first_iterator E a x rls tf cv vd vf) PNone None
         ((fit_start E a x rls tf)\<lparr>levels := Some []\<rparr>) = (Inr (lp, ps), a4, evs3)"
      "levels a4 = Some ret"
      "blender_fit_predict E (blender a) lp ps = ((blended, last_pipes), b1)"
      "out = Inr blended"
      "a' = a4\<lparr>blender := b1, levels := Some (ret @ [last_pipes]),
              reader := upd_used_features E (reader a4)
                          (removed_features E (reader a4) (ret @ [last_pipes])),
              u_levels := None\<rparr>"
      "evs = start_events vd @ evs3 @
             [BlenderFitPredict lp ps,
              UpdUsedFeatures (removed_features E (reader a4) (ret @ [last_pipes]))]"
proof (cases "u_levels a")
  case None
  with assms NoAttr show thesis by (simp add: fit_predict_unfold)
next
  case (Some lvls)
  show thesis
  proof (cases "1 < length lvls \<and> folds E (fst (fit_read E (reader a) x tf rls)) = None")
    case True
    with Some have "fit_predict E a x rls tf cv vd vf =
        (Inl (AssertionError ''Not possible to fit more than 1 level without cv folds''),
         fit_start E a x rls tf, [TimerStart, FitRead])"
      by (simp add: fit_predict_unfold)
    with assms Some True NoFolds [of lvls] show thesis by simp
  next
    case nf: False
    show thesis
    proof (cases "1 < length lvls \<and> vd \<noteq> None")
      case True
      with Some nf have "fit_predict E a x rls tf cv vd vf =
          (Inl (AssertionError ''Not possible to fit more than 1 level with holdout validation''),
           fit_start E a x rls tf, [TimerStart, FitRead])"
        by (simp add: fit_predict_unfold)
      with assms Some True nf Holdout [of lvls] show thesis by simp
    next
      case nh: False
      from nf nh have ok:
        "length lvls \<le> 1 \<or> folds E (fst (fit_read E (reader a) x tf rls)) \<noteq> None \<and> vd = None"
        by auto
      obtain res a4 evs3 where fl:
        "fit_levels E (length lvls) 1 lvls (first_iterator E a x rls tf cv vd vf) PNone None
           ((fit_start E a x rls tf)\<lparr>levels := Some []\<rparr>) = (res, a4, evs3)"
        by (cases "fit_levels E (length lvls) 1 lvls (first_iterator E a x rls tf cv vd vf) PNone None
           ((fit_start E a x rls tf)\<lparr>levels := Some []\<rparr>)") auto
      show thesis
      proof (cases res)
        case (Inl e)
        have "fit_predict E a x rls tf cv vd vf =
            (Inl e, a4, start_events vd @ evs3)"
          unfolding fit_predict_unfold Some option.case if_not_P [OF nf] if_not_P [OF nh] fl Inl
          by simp
        with assms have "out = Inl e" "a' = a4" "evs = start_events vd @ evs3"
          by simp_all
        with Raised [of lvls e evs3] Some ok fl Inl show thesis by simp
      next
        case (Inr r)
        obtain lp ps where r: "r = (lp, ps)" by (cases r)
        note fr = fit_levels_frame [OF fl]
        from fr obtain ret where ret: "levels a4 = Some ret" by auto
        from fr Some have ul: "u_levels a4 = Some lvls" by (simp add: fit_start_def)
        from fr have bl: "blender a4 = blender a" by (simp add: fit_start_def)
        obtain blended last_pipes b1 where
          bf: "blender_fit_predict E (blender a4) lp ps = ((blended, last_pipes), b1)"
          by (cases "blender_fit_predict E (blender a4) lp ps") auto
        note bo = blend_and_finish_ok [OF ret ul bf]
        have "fit_predict E a x rls tf cv vd vf =
            (Inr blended,
             a4\<lparr>blender := b1, levels := Some (ret @ [last_pipes]),
              reader := upd_used_features E (reader a4)
                          (removed_features E (reader a4) (ret @ [last_pipes])),
              u_levels := None\<rparr>,
             start_events vd @ evs3 @
             [BlenderFitPredict lp ps,
              UpdUsedFeatures (removed_features E (reader a4) (ret @ [last_pipes]))])"
          unfolding fit_predict_unfold Some option.case if_not_P [OF nf] if_not_P [OF nh] fl Inr r
          by (simp add: bo)
        with assms
        have "out = Inr blended"
          "a' = a4\<lparr>blender := b1, levels := Some (ret @ [last_pipes]),
              reader := upd_used_features E (reader a4)
                          (removed_features E (reader a4) (ret @ [last_pipes])),
              u_levels := None\<rparr>"
          "evs = start_events vd @ evs3 @
             [BlenderFitPredict lp ps,
              UpdUsedFeatures (removed_features E (reader a4) (ret @ [last_pipes]))]"
          by simp_all
        with Blended [of lvls lp ps a4 evs3 ret blended last_pipes b1] Some ok fl Inr r ret bf bl
        show thesis by simp
      qed
    qed
  qed
qed

subsection \<open>Events before the loop\<close>

lemma start_events_set:
  "set (start_events vd) \<subseteq> {TimerStart, FitRead, ReadData, CreateValidationIterator}"
  by (cases vd) (auto simp: start_events_def)

lemma fits_acc_start_events: "fits_acc acc (start_events vd) = acc"
  by (cases vd) (simp_all add: start_events_def)

lemma split_unique:
  "A @ e # B = pre @ e # post \<Longrightarrow> e \<notin> set A \<Longrightarrow> e \<notin> set B \<Longrightarrow> pre = A \<and> post = B"
proof (induction A arbitrary: pre)
  case Nil
  then show ?case by (cases pre) auto
next
  case (Cons a A)
  then show ?case by (cases pre) auto
qed

subsection \<open>The loop of \<^verbatim>\<open>predict\<close>\<close>

lemma predict_levels_Cons_cases:
  assumes "predict_levels E a N n (level # rest) ds bl = (res, evs)"
  obtains
    (Fail) "n \<noteq> N" "skip_conn a"
      "from_dataset E ds (concatenate E (map (\<lambda>p. pipe_predict E p ds) level)) = None"
      "res = Inl (TypeError conv_msg)"
      "evs = map PipePredict level @ [Concatenate, FromDataset False]"
  | (Skip) conv evs2 where "n \<noteq> N" "skip_conn a"
      "from_dataset E ds (concatenate E (map (\<lambda>p. pipe_predict E p ds) level)) = Some conv"
      "predict_levels E a N (Suc n) rest (concatenate E [conv, ds]) bl = (res, evs2)"
      "evs = map PipePredict level @ [Concatenate, FromDataset True, Concatenate] @ evs2"
  | (Plain) evs2 where "n \<noteq> N" "\<not> skip_conn a"
      "predict_levels E a N (Suc n) rest (concatenate E (map (\<lambda>p. pipe_predict E p ds) level)) bl
         = (res, evs2)"
      "evs = map PipePredict level @ [Concatenate] @ evs2"
  | (Last) evs2 where "n = N"
      "predict_levels E a N (Suc n) rest ds
         (Some (blender_predict E (blender a) (PList (map (\<lambda>p. pipe_predict E p ds) level))))
         = (res, evs2)"
      "evs = map PipePredict level @
             [BlenderPredict (PList (map (\<lambda>p. pipe_predict E p ds) level))] @ evs2"
proof (cases "n = N")
  case True
  with assms Last show thesis
    by (auto simp: Let_def split: prod.splits)
next
  case nN: False
  show thesis
  proof (cases "skip_conn a")
    case False
    with nN assms Plain show thesis
      by (auto simp: Let_def split: prod.splits)
  next
    case True
    show thesis
    proof (cases "from_dataset E ds (concatenate E (map (\<lambda>p. pipe_predict E p ds) level))")
      case None
      with nN True assms Fail show thesis
        by (auto simp: Let_def conv_msg_def)
    next
      case (Some conv)
      with nN True assms Skip [of conv] show thesis
        by (auto simp: Let_def split: prod.splits)
    qed
  qed
qed

lemma predict_levels_events:
  "predict_levels E a N n lvls ds bl = (res, evs) \<Longrightarrow> \<forall>e \<in> set evs. inference_event e"
proof (induction lvls arbitrary: n ds bl evs)
  case Nil
  then show ?case by simp
next
  case (Cons level rest)
  from Cons.prems show ?case
  proof (cases rule: predict_levels_Cons_cases)
    case Fail
    then show ?thesis by auto
  next
    case (Skip conv evs2)
    from Cons.IH [OF Skip(4)] Skip(5) show ?thesis by auto
  next
    case (Plain evs2)
    from Cons.IH [OF Plain(3)] Plain(4) show ?thesis by auto
  next
    case (Last evs2)
    from Cons.IH [OF Last(2)] Last(3) show ?thesis by auto
  qed
qed

lemma predict_levels_conv_fail:
  "predict_levels E a N n lvls ds bl = (res, evs) \<Longrightarrow> FromDataset False \<in> set evs \<Longrightarrow>
     res = Inl (TypeError conv_msg) \<and>
     (\<exists>pre. evs = pre @ [FromDataset False] \<and> FromDataset False \<notin> set pre)"
proof (induction lvls arbitrary: n ds bl evs)
  case Nil
  then show ?case by simp
next
  case (Cons level rest)
  have np: "FromDataset False \<notin> set (map PipePredict level)" by auto
  from Cons.prems(1) show ?case
  proof (cases rule: predict_levels_Cons_cases)
    case Fail
    have "evs = (map PipePredict level @ [Concatenate]) @ [FromDataset False] \<and>
          FromDataset False \<notin> set (map PipePredict level @ [Concatenate])"
      using Fail(5) np by simp
    then have "\<exists>pre. evs = pre @ [FromDataset False] \<and> FromDataset False \<notin> set pre" by blast
    with Fail(4) show ?thesis by simp
  next
    case (Skip conv evs2)
    from Cons.prems(2) Skip(5) np have "FromDataset False \<in> set evs2" by auto
    from Cons.IH [OF Skip(4) this] obtain pre where r: "res = Inl (TypeError conv_msg)"
      and pre: "evs2 = pre @ [FromDataset False]" "FromDataset False \<notin> set pre" by blast
    have "evs = (map PipePredict level @ [Concatenate, FromDataset True, Concatenate] @ pre) @
                [FromDataset False] \<and>
          FromDataset False \<notin>
            set (map PipePredict level @ [Concatenate, FromDataset True, Concatenate] @ pre)"
      using Skip(5) pre np by simp
    then have "\<exists>pre. evs = pre @ [FromDataset False] \<and> FromDataset False \<notin> set pre" by blast
    with r show ?thesis by simp
  next
    case (Plain evs2)
    from Cons.prems(2) Plain(4) np have "FromDataset False \<in> set evs2" by auto
    from Cons.IH [OF Plain(3) this] obtain pre where r: "res = Inl (TypeError conv_msg)"
      and pre: "evs2 = pre @ [FromDataset False]" "FromDataset False \<notin> set pre" by blast
    have "evs = (map PipePredict level @ [Concatenate] @ pre) @ [FromDataset False] \<and>
          FromDataset False \<notin> set (map PipePredict level @ [Concatenate] @ pre)"
      using Plain(4) pre np by simp
    then have "\<exists>pre. evs = pre @ [FromDataset False] \<and> FromDataset False \<notin> set pre" by blast
    with r show ?thesis by simp
  next
    case (Last evs2)
    from Cons.prems(2) Last(3) np have "FromDataset False \<in> set evs2" by auto
    from Cons.IH [OF Last(2) this] obtain pre where r: "res = Inl (TypeError conv_msg)"
      and pre: "evs2 = pre @ [FromDataset False]" "FromDataset False \<notin> set pre" by blast
    have "evs = (map PipePredict level @
                 [BlenderPredict (PList (map (\<lambda>p. pipe_predict E p ds) level))] @ pre) @
                [FromDataset False] \<and>
          FromDataset False \<notin>
            set (map PipePredict level @
                 [BlenderPredict (PList (map (\<lambda>p. pipe_predict E p ds) level))] @ pre)"
      using Last(3) pre np by simp
    then have "\<exists>pre. evs = pre @ [FromDataset False] \<and> FromDataset False \<notin> set pre" by blast
    with r show ?thesis by simp
  qed
qed

lemma predict_levels_raise:
  "predict_levels E a N n lvls ds bl = (Inl e, evs) \<Longrightarrow>
     e = TypeError conv_msg \<and> FromDataset False \<in> set evs"
proof (induction lvls arbitrary: n ds bl evs)
  case Nil
  then show ?case by simp
next
  case (Cons level rest)
  from Cons.prems(1) show ?case
  proof (cases rule: predict_levels_Cons_cases)
    case Fail
    then show ?thesis by simp
  next
    case (Skip conv evs2)
    from Cons.IH [OF Skip(4)] Skip(5) show ?thesis by simp
  next
    case (Plain evs2)
    from Cons.IH [OF Plain(3)] Plain(4) show ?thesis by simp
  next
    case (Last evs2)
    from Cons.IH [OF Last(2)] Last(3) show ?thesis by simp
  qed
qed

lemma predict_levels_conv_skip:
  "predict_levels E a N n lvls ds bl = (res, evs) \<Longrightarrow> FromDataset b \<in> set evs \<Longrightarrow> skip_conn a"
proof (induction lvls arbitrary: n ds bl evs)
  case Nil
  then show ?case by simp
next
  case (Cons level rest)
  have np: "FromDataset b \<notin> set (map PipePredict level)" by auto
  from Cons.prems(1) show ?case
  proof (cases rule: predict_levels_Cons_cases)
    case Fail
    then show ?thesis by simp
  next
    case (Skip conv evs2)
    then show ?thesis by simp
  next
    case (Plain evs2)
    from Cons.prems(2) Plain(4) np have "FromDataset b \<in> set evs2" by auto
    with Plain(3) show ?thesis by (rule Cons.IH)
  next
    case (Last evs2)
    from Cons.prems(2) Last(3) np have "FromDataset b \<in> set evs2" by auto
    with Last(2) show ?thesis by (rule Cons.IH)
  qed
qed

lemma predict_levels_blend:
  "predict_levels E a N n lvls ds bl = (res, evs) \<Longrightarrow> n + length lvls = Suc N \<Longrightarrow>
     BlenderPredict lp \<in> set evs \<Longrightarrow>
     \<exists>ds'. lp = PList (map (\<lambda>p. pipe_predict E p ds') (last lvls))"
proof (induction lvls arbitrary: n ds bl evs)
  case Nil
  then show ?case by simp
next
  case (Cons level rest)
  have np: "BlenderPredict lp \<notin> set (map PipePredict level)" by auto
  from Cons.prems(1) show ?case
  proof (cases rule: predict_levels_Cons_cases)
    case Fail
    with Cons.prems(3) np show ?thesis by auto
  next
    case (Skip conv evs2)
    with Cons.prems(2) have rest: "Suc n + length rest = Suc N" "rest \<noteq> []" by auto
    from Cons.prems(3) Skip(5) np have "BlenderPredict lp \<in> set evs2" by auto
    from Cons.IH [OF Skip(4) rest(1) this] rest(2) show ?thesis by simp
  next
    case (Plain evs2)
    with Cons.prems(2) have rest: "Suc n + length rest = Suc N" "rest \<noteq> []" by auto
    from Cons.prems(3) Plain(4) np have "BlenderPredict lp \<in> set evs2" by auto
    from Cons.IH [OF Plain(3) rest(1) this] rest(2) show ?thesis by simp
  next
    case (Last evs2)
    with Cons.prems(2) have "rest = []" by simp
    with Last have "evs = map PipePredict level @
             [BlenderPredict (PList (map (\<lambda>p. pipe_predict E p ds) level))]" by simp
    with Cons.prems(3) np \<open>rest = []\<close> show ?thesis by auto
  qed
qed

subsection \<open>Splitting a sequence of events\<close>

lemma loop_event_not_is_blend: "loop_event e \<Longrightarrow> \<not> is_blend e"
  by (cases e) simp_all

lemma start_events_not_is_blend: "e \<in> set (start_events vd) \<Longrightarrow> \<not> is_blend e"
  using start_events_set [of vd] by auto

lemma split_unique_pred:
  "A @ e # B = pre @ e' # post \<Longrightarrow> P e' \<Longrightarrow> \<forall>x \<in> set A. \<not> P x \<Longrightarrow> \<forall>x \<in> set B. \<not> P x \<Longrightarrow>
     pre = A \<and> e' = e \<and> post = B"
proof (induction A arbitrary: pre)
  case Nil
  then show ?case by (cases pre) auto
next
  case (Cons a A)
  then show ?case by (cases pre) auto
qed

lemma level_fits_start: "level_fits (start_events vd @ evs) = level_fits evs"
  by (simp add: level_fits_def fits_acc_append fits_acc_start_events)

lemma start_events_no_conv: "FromDataset b \<notin> set (start_events vd)"
  using start_events_set [of vd] by auto

lemma start_events_no_check: "TimeLimitExceeded b \<notin> set (start_events vd)"
  using start_events_set [of vd] by auto

subsection \<open>Runs in which the timer never signals\<close>

lemma never_out_elapsed [simp]: "never_out (t\<lparr>elapsed := k\<rparr>) = never_out t"
  by (simp add: never_out_def)

lemma never_out_start [simp]: "never_out (timer_start t) = never_out t"
  by (simp add: never_out_def timer_start_def)

lemma never_out_signals:
  "never_out t \<Longrightarrow> \<not> time_limit_exceeded t \<and> \<not> child_out_of_time t"
  by (simp add: never_out_def time_limit_exceeded_def child_out_of_time_def)

lemma fit_pipes_never_out:
  "never_out t \<Longrightarrow> fit_pipes E tv level lp ps t = ((lp', ps', t', broke), evs) \<Longrightarrow>
     lp' = lp @ map (\<lambda>p. fst (pipe_fit_predict E p tv)) level \<and>
     ps' = ps @ map (\<lambda>p. snd (pipe_fit_predict E p tv)) level \<and>
     never_out t' \<and> \<not> broke"
proof (induction level arbitrary: lp ps t evs)
  case Nil
  then show ?case by simp
next
  case (Cons p level)
  obtain d fitted where fp: "pipe_fit_predict E p tv = (d, fitted)"
    by (cases "pipe_fit_predict E p tv")
  define t1 where "t1 = t\<lparr>elapsed := Suc (elapsed t)\<rparr>"
  from Cons.prems(1) have no: "never_out t1" by (simp add: t1_def)
  then have "\<not> time_limit_exceeded t1" by (simp add: never_out_signals)
  with Cons.prems(2) fp obtain evs0 where
    rec: "fit_pipes E tv level (lp @ [d]) (ps @ [fitted]) t1 = ((lp', ps', t', broke), evs0)"
    by (auto simp: t1_def split: prod.splits)
  from Cons.IH [OF no rec] fp show ?case by simp
qed

lemma level_body_never_out:
  assumes "never_out (timer a)"
    and "level_body E N n level tv a = (fl, lp, pipes, a', evs)"
  shows "never_out (timer a') \<and>
         pipes = map (\<lambda>p. snd (pipe_fit_predict E p tv)) level \<and>
         (fl = Break \<longrightarrow> n = N \<and> lp = PList (map (\<lambda>p. fst (pipe_fit_predict E p tv)) level))"
proof -
  from assms(2) obtain preds t1 broke evs1 where
    fp: "fit_pipes E tv level [] [] (timer a) = ((preds, pipes, t1, broke), evs1)"
    by (rule level_body_elim)
  from fit_pipes_never_out [OF assms(1) fp]
  have r: "preds = map (\<lambda>p. fst (pipe_fit_predict E p tv)) level"
    "pipes = map (\<lambda>p. snd (pipe_fit_predict E p tv)) level" "never_out t1" "\<not> broke"
    by simp_all
  from r(3) have "\<not> child_out_of_time t1" by (simp add: never_out_signals)
  with assms(2) r show ?thesis
    unfolding level_body_unfold [OF fp] by (auto split: if_splits option.splits)
qed

lemma fit_levels_never_out:
  "never_out (timer a) \<Longrightarrow> levels a = Some acc \<Longrightarrow> n + length lvls = Suc N \<Longrightarrow> lvls \<noteq> [] \<Longrightarrow>
   fit_levels E N n lvls tv lp ps a = (Inr (lp', ps'), a', evs) \<Longrightarrow>
     \<exists>ret tvl. levels a' = Some (acc @ ret) \<and> list_all2 (fitted_level E) ret (butlast lvls) \<and>
       lp' = PList (map (\<lambda>p. fst (pipe_fit_predict E p tvl)) (last lvls)) \<and>
       ps' = Some (map (\<lambda>p. snd (pipe_fit_predict E p tvl)) (last lvls))"
proof (induction lvls arbitrary: n tv lp ps a acc evs)
  case Nil
  then show ?case by simp
next
  case (Cons level rest)
  from Cons.prems(5) show ?case
  proof (cases rule: fit_levels_Cons_cases)
    case (Raise e lp1 pipes1)
    then show ?thesis by simp
  next
    case (Break lp1 pipes1)
    note no = level_body_never_out [OF Cons.prems(1) Break(1)]
    from no have "n = N" by simp
    with Cons.prems(3) have rest: "rest = []" by simp
    from level_body_frame [OF Break(1)] Cons.prems(2) have "levels a' = Some (acc @ [])" by simp
    moreover have "list_all2 (fitted_level E) [] (butlast (level # rest))" using rest by simp
    moreover from no Break(2) rest
    have "lp' = PList (map (\<lambda>p. fst (pipe_fit_predict E p tv)) (last (level # rest))) \<and>
          ps' = Some (map (\<lambda>p. snd (pipe_fit_predict E p tv)) (last (level # rest)))"
      by simp
    ultimately show ?thesis by blast
  next
    case (Next tv1 lp1 pipes1 a1 evs1 evs2)
    note no = level_body_never_out [OF Cons.prems(1) Next(1)]
    note fr = level_body_frame [OF Next(1)]
    from fr have "n \<noteq> N" by auto
    with Cons.prems(3) have rest: "rest \<noteq> []" "Suc n + length rest = Suc N" by auto
    from fr Cons.prems(2) have lv: "levels a1 = Some (acc @ [pipes1])" by auto
    from no have no1: "never_out (timer a1)" by simp
    from Cons.IH [OF no1 lv rest(2) rest(1) Next(2)] obtain ret tvl where
      ih: "levels a' = Some ((acc @ [pipes1]) @ ret)" "list_all2 (fitted_level E) ret (butlast rest)"
        "lp' = PList (map (\<lambda>p. fst (pipe_fit_predict E p tvl)) (last rest))"
        "ps' = Some (map (\<lambda>p. snd (pipe_fit_predict E p tvl)) (last rest))"
      by blast
    from no have "fitted_level E pipes1 level" unfolding fitted_level_def by blast
    with ih(2) rest(1) have "list_all2 (fitted_level E) (pipes1 # ret) (butlast (level # rest))"
      by simp
    moreover from ih(1) have "levels a' = Some (acc @ pipes1 # ret)" by simp
    moreover from ih(3,4) rest(1)
    have "lp' = PList (map (\<lambda>p. fst (pipe_fit_predict E p tvl)) (last (level # rest))) \<and>
          ps' = Some (map (\<lambda>p. snd (pipe_fit_predict E p tvl)) (last (level # rest)))"
      by simp
    ultimately show ?thesis by blast
  qed
qed

lemma level_body_type_error:
  assumes "level_body E N n level tv a = (Raise (TypeError m), lp, pipes, a', evs)"
  shows "skip_conn a \<and> (\<exists>target other. from_dataset E target other = None)"
proof -
  from assms(1) obtain preds t1 broke evs1 where
    fp: "fit_pipes E tv level [] [] (timer a) = ((preds, pipes, t1, broke), evs1)"
    by (rule level_body_elim)
  from assms show ?thesis
    unfolding level_body_unfold [OF fp] by (auto split: if_splits option.splits)
qed

lemma fit_levels_type_error:
  "fit_levels E N n lvls tv lp ps a = (Inl (TypeError m), a', evs) \<Longrightarrow>
     skip_conn a \<and> (\<exists>target other. from_dataset E target other = None)"
proof (induction lvls arbitrary: n tv lp ps a evs)
  case Nil
  then show ?case by simp
next
  case (Cons level rest)
  from Cons.prems(1) show ?case
  proof (cases rule: fit_levels_Cons_cases)
    case (Raise e lp1 pipes1)
    then have "level_body E N n level tv a = (Raise (TypeError m), lp1, pipes1, a', evs)" by simp
    then show ?thesis by (rule level_body_type_error)
  next
    case (Break lp1 pipes1)
    then show ?thesis by simp
  next
    case (Next tv1 lp1 pipes1 a1 evs1 evs2)
    from Cons.IH [OF Next(2)] level_body_frame [OF Next(1)] show ?thesis by simp
  qed
qed

lemma set_removed_features:
  "set (removed_features E r lvls) =
     set (used_features E r) - (\<Union>lvl \<in> set lvls. \<Union>p \<in> set lvl. set (pipe_used_features E p))"
  by (auto simp: removed_features_def)

section \<open>The claims\<close>

text \<open>
  Claim C1, as amended. The blender never receives one concatenated dataset. In
  \<^verbatim>\<open>fit_predict\<close> (with at least one configured level) it is called with the
  Python list of the per-pipeline predictions of the level processed last, in
  pipeline order, and with the list of the pipelines that produced them: both are
  the fits recorded since the last \<^verbatim>\<open>'Layer n ...'\<close> message. In \<^verbatim>\<open>predict\<close>
  the blender is called with the list of the predictions of the pipelines of the
  last retained level on one dataset.
\<close>

theorem blender_input:
  "(fit_predict E a x rls tf cv vd vf = (out, a', pre @ BlenderFitPredict lp ps # post) \<and>
    u_levels a = Some lvls \<and> lvls \<noteq> [] \<longrightarrow>
      lp = PList (map snd (level_fits pre)) \<and> ps = Some (map fst (level_fits pre))) \<and>
   (predict E b y fn = (out', b', evs') \<and> levels b = Some ret \<and> BlenderPredict lp' \<in> set evs' \<longrightarrow>
      (\<exists>ds. lp' = PList (map (\<lambda>p. pipe_predict E p ds) (last ret))))"
proof -
  have fit: "lp = PList (map snd (level_fits pre)) \<and> ps = Some (map fst (level_fits pre))"
    if fp: "fit_predict E a x rls tf cv vd vf = (out, a', pre @ BlenderFitPredict lp ps # post)"
      and ul: "u_levels a = Some lvls" "lvls \<noteq> []"
    using fp
  proof (cases rule: fit_predict_cases)
    case NoAttr
    with ul show ?thesis by simp
  next
    case (NoFolds lvls')
    have "BlenderFitPredict lp ps \<in> set (pre @ BlenderFitPredict lp ps # post)" by simp
    with NoFolds(5) show ?thesis by simp
  next
    case (Holdout lvls')
    have "BlenderFitPredict lp ps \<in> set (pre @ BlenderFitPredict lp ps # post)" by simp
    with Holdout(6) show ?thesis by simp
  next
    case (Raised lvls' e evs3)
    have "BlenderFitPredict lp ps \<in> set (pre @ BlenderFitPredict lp ps # post)" by simp
    with Raised(5) have "BlenderFitPredict lp ps \<in> set (start_events vd @ evs3)" by simp
    moreover have "\<forall>e \<in> set (start_events vd @ evs3). \<not> is_blend e"
      using fit_levels_events [OF Raised(3)]
      by (auto dest: loop_event_not_is_blend start_events_not_is_blend)
    ultimately have "\<not> is_blend (BlenderFitPredict lp ps)" by blast
    then show ?thesis by simp
  next
    case (Blended lvls' lp0 ps0 a4 evs3 ret0 blended last_pipes b1)
    have "(start_events vd @ evs3) @ BlenderFitPredict lp0 ps0 #
            [UpdUsedFeatures (removed_features E (reader a4) (ret0 @ [last_pipes]))] =
          pre @ BlenderFitPredict lp ps # post"
      using Blended(8) by simp
    moreover have "is_blend (BlenderFitPredict lp ps)" by simp
    moreover have "\<forall>e \<in> set (start_events vd @ evs3). \<not> is_blend e"
      using fit_levels_events [OF Blended(3)]
      by (auto dest: loop_event_not_is_blend start_events_not_is_blend)
    moreover have "\<forall>e \<in> set [UpdUsedFeatures (removed_features E (reader a4) (ret0 @ [last_pipes]))].
        \<not> is_blend e" by simp
    ultimately have sp: "pre = start_events vd @ evs3 \<and>
        BlenderFitPredict lp ps = BlenderFitPredict lp0 ps0 \<and>
        post = [UpdUsedFeatures (removed_features E (reader a4) (ret0 @ [last_pipes]))]"
      by (rule split_unique_pred)
    from Blended(1) ul have lv: "lvls' = lvls" by simp
    have "1 + length lvls' = Suc (length lvls')" by simp
    from fit_levels_broke [OF Blended(3) this] lv ul(2)
    have "lp0 = PList (map snd (level_fits evs3)) \<and> ps0 = Some (map fst (level_fits evs3))"
      by simp
    with sp show ?thesis by (simp add: level_fits_start)
  qed
  have pred: "\<exists>ds. lp' = PList (map (\<lambda>p. pipe_predict E p ds) (last ret))"
    if pr: "predict E b y fn = (out', b', evs')" and lv: "levels b = Some ret"
      and bp: "BlenderPredict lp' \<in> set evs'"
  proof -
    obtain res evs2 where pl:
      "predict_levels E b (length ret) 1 ret (read E (reader b) y fn False) None = (res, evs2)"
      by (cases "predict_levels E b (length ret) 1 ret (read E (reader b) y fn False) None")
    with pr lv have "evs' = ReadData # evs2" by (simp add: predict_def)
    with bp have "BlenderPredict lp' \<in> set evs2" by simp
    moreover have "1 + length ret = Suc (length ret)" by simp
    ultimately show ?thesis using pl by (blast intro: predict_levels_blend)
  qed
  from fit pred show ?thesis by blast
qed

text \<open>
  A run with one level of two pipelines: the blender is called with the list of
  the two predictions. It keeps the first pipeline, and \<^verbatim>\<open>predict\<close> on the
  trained orchestrator calls it with the list of that pipeline's prediction.
\<close>

theorem blender_input_witness:
  "snd (snd (fit_predict ex_collab (ex_automl ex_one_level PipelineTimer False) (ex_data None) []
               None None None None)) =
     [TimerStart, FitRead, CreateValidationIterator, Layer 1,
      PipeFit (ex_fitted 0 0 [''x1'', ''x2'']) (ex_prediction (ex_fitted 0 0 []) None),
      TimeLimitExceeded False,
      PipeFit (ex_fitted 0 1 [''x1'', ''x2'']) (ex_prediction (ex_fitted 0 1 []) None),
      TimeLimitExceeded False, ChildOutOfTime False] @
     BlenderFitPredict
       (PList [ex_prediction (ex_fitted 0 0 []) None, ex_prediction (ex_fitted 0 1 []) None])
       (Some [ex_fitted 0 0 [''x1'', ''x2''], ex_fitted 0 1 [''x1'', ''x2'']]) #
     [UpdUsedFeatures []] \<and>
   u_levels (ex_automl ex_one_level PipelineTimer False) = Some (name_levels ex_collab 0 ex_one_level) \<and>
   name_levels ex_collab 0 ex_one_level \<noteq> [] \<and>
   PList [ex_prediction (ex_fitted 0 0 []) None, ex_prediction (ex_fitted 0 1 []) None] =
     PList (map snd (level_fits
       [TimerStart, FitRead, CreateValidationIterator, Layer 1,
        PipeFit (ex_fitted 0 0 [''x1'', ''x2'']) (ex_prediction (ex_fitted 0 0 []) None),
        TimeLimitExceeded False,
        PipeFit (ex_fitted 0 1 [''x1'', ''x2'']) (ex_prediction (ex_fitted 0 1 []) None),
        TimeLimitExceeded False, ChildOutOfTime False])) \<and>
   levels (fst (snd (fit_predict ex_collab (ex_automl ex_one_level PipelineTimer False)
                       (ex_data None) [] None None None None))) =
     Some [[ex_fitted 0 0 [''x1'', ''x2'']]] \<and>
   BlenderPredict (PList [ex_prediction (ex_fitted 0 0 []) None])
     \<in> set (snd (snd (predict ex_collab
                         (fst (snd (fit_predict ex_collab (ex_automl ex_one_level PipelineTimer False)
                                      (ex_data None) [] None None None None)))
                         (ex_data None) None))) \<and>
   (\<exists>ds. PList [ex_prediction (ex_fitted 0 0 []) None] =
           PList (map (\<lambda>p. pipe_predict ex_collab p ds) (last [[ex_fitted 0 0 [''x1'', ''x2'']]])))"
proof -
  let ?r = "fit_predict ex_collab (ex_automl ex_one_level PipelineTimer False) (ex_data None) []
              None None None None"
  let ?pre = "[TimerStart, FitRead, CreateValidationIterator, Layer 1,
      PipeFit (ex_fitted 0 0 [''x1'', ''x2'']) (ex_prediction (ex_fitted 0 0 []) None),
      TimeLimitExceeded False,
      PipeFit (ex_fitted 0 1 [''x1'', ''x2'']) (ex_prediction (ex_fitted 0 1 []) None),
      TimeLimitExceeded False, ChildOutOfTime False]"
  let ?lp = "PList [ex_prediction (ex_fitted 0 0 []) None, ex_prediction (ex_fitted 0 1 []) None]"
  let ?ps = "Some [ex_fitted 0 0 [''x1'', ''x2''], ex_fitted 0 1 [''x1'', ''x2'']]"
  let ?p = "predict ex_collab (fst (snd ?r)) (ex_data None) None"
  let ?lp' = "PList [ex_prediction (ex_fitted 0 0 []) None]"
  have evs: "snd (snd ?r) = ?pre @ BlenderFitPredict ?lp ?ps # [UpdUsedFeatures []]"
    by code_simp
  then have run: "?r = (fst ?r, fst (snd ?r), ?pre @ BlenderFitPredict ?lp ?ps # [UpdUsedFeatures []])"
    by (simp add: prod_eq_iff)
  have ul: "u_levels (ex_automl ex_one_level PipelineTimer False) =
              Some (name_levels ex_collab 0 ex_one_level)"
    by (simp add: ex_automl_def)
  have ne: "name_levels ex_collab 0 ex_one_level \<noteq> []"
    by (simp add: ex_one_level_def)
  have lv: "levels (fst (snd ?r)) = Some [[ex_fitted 0 0 [''x1'', ''x2'']]]" by code_simp
  have bp: "BlenderPredict ?lp' \<in> set (snd (snd ?p))" by code_simp
  have prd: "?p = (fst ?p, fst (snd ?p), snd (snd ?p))" by simp
  note t = blender_input [of ex_collab "ex_automl ex_one_level PipelineTimer False" "ex_data None" "[]"
      None None None None "fst ?r" "fst (snd ?r)" ?pre ?lp ?ps "[UpdUsedFeatures []]"
      "name_levels ex_collab 0 ex_one_level" "fst (snd ?r)" "ex_data None" None
      "fst ?p" "fst (snd ?p)" "snd (snd ?p)" "[[ex_fitted 0 0 [''x1'', ''x2'']]]" ?lp']
  from t run ul ne have 1: "?lp = PList (map snd (level_fits ?pre))" by blast
  from t prd lv bp have 2: "\<exists>ds. ?lp' =
      PList (map (\<lambda>p. pipe_predict ex_collab p ds) (last [[ex_fitted 0 0 [''x1'', ''x2'']]]))"
    by blast
  from evs ul ne 1 lv bp 2 show ?thesis by blast
qed

text \<open>
  The claim as stated fails on the same run: \<^verbatim>\<open>concatenate\<close> is never called,
  and the blender's argument is the list of the two predictions, not their
  concatenation. The same holds for \<^verbatim>\<open>predict\<close> on the trained orchestrator.
\<close>

theorem blender_input_counterexample:
  "BlenderFitPredict
     (PList [ex_prediction (ex_fitted 0 0 []) None, ex_prediction (ex_fitted 0 1 []) None])
     (Some [ex_fitted 0 0 [''x1'', ''x2''], ex_fitted 0 1 [''x1'', ''x2'']])
     \<in> set (snd (snd (fit_predict ex_collab (ex_automl ex_one_level PipelineTimer False)
                         (ex_data None) [] None None None None))) \<and>
   BlenderFitPredict
     (PDataset (concatenate ex_collab
        [ex_prediction (ex_fitted 0 0 []) None, ex_prediction (ex_fitted 0 1 []) None]))
     (Some [ex_fitted 0 0 [''x1'', ''x2''], ex_fitted 0 1 [''x1'', ''x2'']])
     \<notin> set (snd (snd (fit_predict ex_collab (ex_automl ex_one_level PipelineTimer False)
                         (ex_data None) [] None None None None))) \<and>
   Concatenate
     \<notin> set (snd (snd (fit_predict ex_collab (ex_automl ex_one_level PipelineTimer False)
                         (ex_data None) [] None None None None))) \<and>
   snd (snd (predict ex_collab
               (fst (snd (fit_predict ex_collab (ex_automl ex_one_level PipelineTimer False)
                            (ex_data None) [] None None None None)))
               (ex_data None) None)) =
     [ReadData, PipePredict (ex_fitted 0 0 [''x1'', ''x2'']),
      BlenderPredict (PList [ex_prediction (ex_fitted 0 0 []) None])]"
  by code_simp

text \<open>
  Claim C2, as amended. With more than one level, \<^verbatim>\<open>fit_predict\<close> raises an
  assertion error if and only if the training dataset has no folds or holdout
  validation data is supplied. It does so right after the reader has read the
  training data, before any pipeline is fitted. The argument \<^verbatim>\<open>cv_iter\<close> plays no
  part: without folds the first assertion fails whatever \<^verbatim>\<open>cv_iter\<close> is.
\<close>

theorem more_levels_need_folds:
  assumes "u_levels a = Some lvls" "1 < length lvls"
  shows "((\<exists>msg. fst (fit_predict E a x rls tf cv vd vf) = Inl (AssertionError msg)) \<longleftrightarrow>
            folds E (fst (fit_read E (reader a) x tf rls)) = None \<or> vd \<noteq> None) \<and>
         ((\<exists>msg. fst (fit_predict E a x rls tf cv vd vf) = Inl (AssertionError msg)) \<longrightarrow>
            snd (snd (fit_predict E a x rls tf cv vd vf)) = [TimerStart, FitRead]) \<and>
         (folds E (fst (fit_read E (reader a) x tf rls)) = None \<longrightarrow>
            fit_predict E a x rls tf cv vd vf =
              (Inl (AssertionError ''Not possible to fit more than 1 level without cv folds''),
               fit_start E a x rls tf, [TimerStart, FitRead]))"
proof -
  obtain out a' evs where fp: "fit_predict E a x rls tf cv vd vf = (out, a', evs)"
    by (cases "fit_predict E a x rls tf cv vd vf")
  from fp show ?thesis
  proof (cases rule: fit_predict_cases)
    case NoAttr
    with assms show ?thesis by simp
  next
    case (NoFolds lvls')
    with fp show ?thesis by simp
  next
    case (Holdout lvls')
    with fp show ?thesis by simp
  next
    case (Raised lvls' e evs3)
    from fit_levels_raise [OF Raised(3)] have "\<forall>msg. e \<noteq> AssertionError msg" by auto
    with fp Raised assms show ?thesis by auto
  next
    case (Blended lvls' lp ps a4 evs3 ret blended last_pipes b1)
    with fp assms show ?thesis by auto
  qed
qed

text \<open>Two levels, training data with folds, no holdout: no assertion error.\<close>

theorem more_levels_need_folds_witness:
  "u_levels (ex_automl ex_two_levels PipelineTimer False) = Some (name_levels ex_collab 0 ex_two_levels) \<and>
   1 < length (name_levels ex_collab 0 ex_two_levels) \<and>
   folds ex_collab (fst (fit_read ex_collab (reader (ex_automl ex_two_levels PipelineTimer False))
                          (ex_data (Some [0, 1])) None [])) \<noteq> None \<and>
   \<not> (\<exists>msg. fst (fit_predict ex_collab (ex_automl ex_two_levels PipelineTimer False)
                     (ex_data (Some [0, 1])) [] None None None None) = Inl (AssertionError msg))"
proof -
  have ul: "u_levels (ex_automl ex_two_levels PipelineTimer False) =
              Some (name_levels ex_collab 0 ex_two_levels)"
    by (simp add: ex_automl_def)
  have len: "1 < length (name_levels ex_collab 0 ex_two_levels)"
    by (simp add: ex_two_levels_def)
  have fo: "folds ex_collab (fst (fit_read ex_collab (reader (ex_automl ex_two_levels PipelineTimer False))
                          (ex_data (Some [0, 1])) None [])) \<noteq> None"
    by (simp add: ex_collab_def ex_data_def)
  from more_levels_need_folds [OF ul len, of ex_collab "ex_data (Some [0, 1])" "[]" None None None None] fo
  have "\<not> (\<exists>msg. fst (fit_predict ex_collab (ex_automl ex_two_levels PipelineTimer False)
                     (ex_data (Some [0, 1])) [] None None None None) = Inl (AssertionError msg))"
    by blast
  with ul len fo show ?thesis by blast
qed

text \<open>
  The claim as stated fails: two levels, training data without folds and a custom
  \<^verbatim>\<open>cv_iter\<close> still raise the assertion error about missing folds.
\<close>

theorem more_levels_need_folds_counterexample:
  "length (the (u_levels (ex_automl ex_two_levels PipelineTimer False))) = 2 \<and>
   fst (fit_predict ex_collab (ex_automl ex_two_levels PipelineTimer False) (ex_data None) []
          None (Some ()) None None) =
     Inl (AssertionError ''Not possible to fit more than 1 level without cv folds'')"
  by code_simp

text \<open>
  Claim C3, as amended. \<^verbatim>\<open>_initialize\<close> calls \<^verbatim>\<open>upd_model_names\<close> on the
  pipeline at position \<open>j\<close> of level \<open>i\<close> (both counted from 0) with the string
  \<^verbatim>\<open>Lvl_<i>_Pipe_<j>\<close>, and different positions get different strings.
\<close>

theorem initialize_names:
  assumes "initialize E rd lvls tm bl sc = Inr a"
  shows "\<exists>named. u_levels a = Some named \<and> length named = length lvls \<and>
           (\<forall>i < length lvls. length (named ! i) = length (lvls ! i) \<and>
              (\<forall>j < length (lvls ! i).
                 named ! i ! j =
                   upd_model_names E (lvls ! i ! j) (''Lvl_'' @ str_nat i @ ''_Pipe_'' @ str_nat j))) \<and>
           (\<forall>i j i' j'. ''Lvl_'' @ str_nat i @ ''_Pipe_'' @ str_nat j =
                          ''Lvl_'' @ str_nat i' @ ''_Pipe_'' @ str_nat j' \<longrightarrow> i = i' \<and> j = j')"
proof -
  from assms have u: "u_levels a = Some (name_levels E 0 lvls)"
    by (auto simp: initialize_def split: if_splits)
  have inj: "\<forall>i j i' j'. ''Lvl_'' @ str_nat i @ ''_Pipe_'' @ str_nat j =
                          ''Lvl_'' @ str_nat i' @ ''_Pipe_'' @ str_nat j' \<longrightarrow> i = i' \<and> j = j'"
    using model_name_inj unfolding model_name_def by blast
  have "\<forall>i < length lvls. length (name_levels E 0 lvls ! i) = length (lvls ! i) \<and>
              (\<forall>j < length (lvls ! i).
                 name_levels E 0 lvls ! i ! j =
                   upd_model_names E (lvls ! i ! j) (''Lvl_'' @ str_nat i @ ''_Pipe_'' @ str_nat j))"
    by (simp add: nth_name_levels length_name_pipes nth_name_pipes model_name_def)
  with u inj show ?thesis
    by (simp add: length_name_levels del: append_eq_append_conv append.simps)
qed

theorem initialize_names_witness:
  "initialize ex_collab [] ex_one_level None None False =
     Inr (ex_automl ex_one_level PipelineTimer False) \<and>
   (\<exists>named. u_levels (ex_automl ex_one_level PipelineTimer False) = Some named \<and>
      named ! 0 ! 1 = upd_model_names ex_collab (ex_one_level ! 0 ! 1) ''Lvl_0_Pipe_1'')"
proof -
  have h: "initialize ex_collab [] ex_one_level None None False =
             Inr (ex_automl ex_one_level PipelineTimer False)"
    by (simp add: initialize_def ex_automl_def ex_collab_def ex_one_level_def)
  from initialize_names [OF h] obtain named where
    n: "u_levels (ex_automl ex_one_level PipelineTimer False) = Some named"
    and nth: "\<forall>i < length ex_one_level. length (named ! i) = length (ex_one_level ! i) \<and>
              (\<forall>j < length (ex_one_level ! i).
                 named ! i ! j =
                   upd_model_names ex_collab (ex_one_level ! i ! j)
                     (''Lvl_'' @ str_nat i @ ''_Pipe_'' @ str_nat j))"
    by blast
  have s: "''Lvl_'' @ str_nat 0 @ ''_Pipe_'' @ str_nat 1 = ''Lvl_0_Pipe_1''" by code_simp
  have "0 < length ex_one_level" "1 < length (ex_one_level ! 0)"
    by (simp_all add: ex_one_level_def)
  with nth have "named ! 0 ! 1 =
      upd_model_names ex_collab (ex_one_level ! 0 ! 1) (''Lvl_'' @ str_nat 0 @ ''_Pipe_'' @ str_nat 1)"
    by blast
  with s n h show ?thesis by simp
qed

text \<open>
  The claim as stated fails: the first pipeline of the first level is named
  \<^verbatim>\<open>Lvl_0_Pipe_0\<close>, not \<^verbatim>\<open>Level_0_Pipe_0\<close>.
\<close>

theorem initialize_names_counterexample:
  "\<not> isl (initialize ex_collab [] ex_one_level None None False) \<and>
   map (map p_name) (the (u_levels (projr (initialize ex_collab [] ex_one_level None None False)))) =
     [[''Lvl_0_Pipe_0'', ''Lvl_0_Pipe_1'']] \<and>
   p_name (the (u_levels (projr (initialize ex_collab [] ex_one_level None None False))) ! 0 ! 0)
     \<noteq> ''Level_0_Pipe_0''"
  by code_simp

text \<open>
  Claim C4. Whenever the timer reports the global budget exceeded after a
  pipeline's fit, \<^verbatim>\<open>fit_predict\<close> does nothing more than call the blender and
  prune the reader's features: no pipeline is fitted afterwards, no level is opened,
  no validation iterator is built. The blender is called on the predictions of the
  pipelines of the current level that were fitted up to that point (at least one),
  and \<^verbatim>\<open>fit_predict\<close> returns the blended prediction. Calls to the collaborators
  are taken to return normally.
\<close>

theorem time_limit_stops_training:
  assumes "fit_predict E a x rls tf cv vd vf = (out, a', evs)"
    and "evs = pre @ TimeLimitExceeded True # post"
  shows "\<exists>blended last_pipes b1 removed.
           level_fits pre \<noteq> [] \<and>
           blender_fit_predict E (blender a) (PList (map snd (level_fits pre)))
             (Some (map fst (level_fits pre))) = ((blended, last_pipes), b1) \<and>
           out = Inr blended \<and>
           post = [BlenderFitPredict (PList (map snd (level_fits pre)))
                     (Some (map fst (level_fits pre))),
                   UpdUsedFeatures removed]"
  using assms(1)
proof (cases rule: fit_predict_cases)
  case NoAttr
  moreover from assms(2) have "TimeLimitExceeded True \<in> set evs" by simp
  ultimately show ?thesis by simp
next
  case (NoFolds lvls)
  moreover from assms(2) have "TimeLimitExceeded True \<in> set evs" by simp
  ultimately show ?thesis by simp
next
  case (Holdout lvls)
  moreover from assms(2) have "TimeLimitExceeded True \<in> set evs" by simp
  ultimately show ?thesis by simp
next
  case (Raised lvls e evs3)
  from assms(2) have "TimeLimitExceeded True \<in> set evs" by simp
  with Raised(5) have "TimeLimitExceeded True \<in> set evs3"
    by (simp add: start_events_no_check)
  from fit_levels_exceeded [OF Raised(3) this] show ?thesis by simp
next
  case (Blended lvls lp ps a4 evs3 ret blended last_pipes b1)
  from assms(2) have "TimeLimitExceeded True \<in> set evs" by simp
  with Blended(8) have "TimeLimitExceeded True \<in> set evs3"
    by (simp add: start_events_no_check)
  from fit_levels_exceeded [OF Blended(3) this] obtain pre3 where
    pre3: "evs3 = pre3 @ [TimeLimitExceeded True]" "TimeLimitExceeded True \<notin> set pre3"
    and ne: "level_fits evs3 \<noteq> []"
    and lp: "lp = PList (map snd (level_fits evs3))" "ps = Some (map fst (level_fits evs3))"
    by auto
  define tl where "tl = [BlenderFitPredict lp ps,
      UpdUsedFeatures (removed_features E (reader a4) (ret @ [last_pipes]))]"
  have "(start_events vd @ pre3) @ TimeLimitExceeded True # tl = pre @ TimeLimitExceeded True # post"
    using Blended(8) assms(2) pre3(1) by (simp add: tl_def)
  moreover have "TimeLimitExceeded True \<notin> set (start_events vd @ pre3)"
    using pre3(2) by (simp add: start_events_no_check)
  moreover have "TimeLimitExceeded True \<notin> set tl" by (simp add: tl_def)
  ultimately have sp: "pre = start_events vd @ pre3 \<and> post = tl" by (rule split_unique)
  have "level_fits pre = level_fits evs3"
    using sp pre3(1) by (simp add: level_fits_start)
  with ne lp sp Blended(5,6) show ?thesis by (simp add: tl_def)
qed

text \<open>
  Two levels and a budget that is exceeded after the first fit: the second pipeline
  of the first level and the second level are never started.
\<close>

theorem time_limit_stops_training_witness:
  "snd (snd (fit_predict ex_collab (ex_automl ex_two_levels (ex_timer 1) False)
               (ex_data (Some [0, 1])) [] None None None None)) =
     [TimerStart, FitRead, CreateValidationIterator, Layer 1,
      PipeFit (ex_fitted 0 0 [''x1'', ''x2'']) (ex_prediction (ex_fitted 0 0 []) (Some [0, 1]))] @
     TimeLimitExceeded True #
     [BlenderFitPredict (PList [ex_prediction (ex_fitted 0 0 []) (Some [0, 1])])
        (Some [ex_fitted 0 0 [''x1'', ''x2'']]),
      UpdUsedFeatures []] \<and>
   (\<exists>blended. fst (fit_predict ex_collab (ex_automl ex_two_levels (ex_timer 1) False)
                     (ex_data (Some [0, 1])) [] None None None None) = Inr blended)"
proof -
  let ?r = "fit_predict ex_collab (ex_automl ex_two_levels (ex_timer 1) False)
              (ex_data (Some [0, 1])) [] None None None None"
  let ?pre = "[TimerStart, FitRead, CreateValidationIterator, Layer 1,
      PipeFit (ex_fitted 0 0 [''x1'', ''x2'']) (ex_prediction (ex_fitted 0 0 []) (Some [0, 1]))]"
  let ?post = "[BlenderFitPredict (PList [ex_prediction (ex_fitted 0 0 []) (Some [0, 1])])
        (Some [ex_fitted 0 0 [''x1'', ''x2'']]),
      UpdUsedFeatures []]"
  have evs: "snd (snd ?r) = ?pre @ TimeLimitExceeded True # ?post" by code_simp
  have run: "?r = (fst ?r, fst (snd ?r), snd (snd ?r))" by simp
  from time_limit_stops_training [OF run evs] have "\<exists>blended. fst ?r = Inr blended" by blast
  with evs show ?thesis by blast
qed

text \<open>
  Claim C5. The conversion of the concatenated predictions for the skip connection
  is attempted only when \<^verbatim>\<open>skip_conn\<close> is set. When it fails, \<^verbatim>\<open>fit_predict\<close>
  and \<^verbatim>\<open>predict\<close> raise a \<^verbatim>\<open>TypeError\<close> whose message tells the caller to set
  \<^verbatim>\<open>skip_conn=False\<close>, and the failed conversion is the last thing they do: no
  validation iterator or dataset for the next level is built, and no pipeline runs
  without the skip connection instead. No other \<^verbatim>\<open>TypeError\<close> is raised by the
  orchestrator.
\<close>

theorem conversion_failure:
  "(fit_predict E a x rls tf cv vd vf = (out, a', evs) \<longrightarrow>
      (FromDataset False \<in> set evs \<longleftrightarrow>
         out = Inl (TypeError
           ''Can not convert prediction dataset type to input features. Set skip_conn=False'')) \<and>
      (\<forall>m. out = Inl (TypeError m) \<longrightarrow>
         m = ''Can not convert prediction dataset type to input features. Set skip_conn=False'') \<and>
      (FromDataset False \<in> set evs \<longrightarrow>
         skip_conn a \<and> (\<exists>pre. evs = pre @ [FromDataset False] \<and> FromDataset False \<notin> set pre))) \<and>
   (predict E b y fn = (out', b', evs') \<longrightarrow>
      (FromDataset False \<in> set evs' \<longleftrightarrow>
         out' = Inl (TypeError
           ''Can not convert prediction dataset type to input features. Set skip_conn=False'')) \<and>
      (\<forall>m. out' = Inl (TypeError m) \<longrightarrow>
         m = ''Can not convert prediction dataset type to input features. Set skip_conn=False'') \<and>
      (FromDataset False \<in> set evs' \<longrightarrow>
         skip_conn b \<and> (\<exists>pre. evs' = pre @ [FromDataset False] \<and> FromDataset False \<notin> set pre)))"
proof -
  have fit: "(FromDataset False \<in> set evs \<longleftrightarrow> out = Inl (TypeError conv_msg)) \<and>
      (\<forall>m. out = Inl (TypeError m) \<longrightarrow> m = conv_msg) \<and>
      (FromDataset False \<in> set evs \<longrightarrow>
         skip_conn a \<and> (\<exists>pre. evs = pre @ [FromDataset False] \<and> FromDataset False \<notin> set pre))"
    if fp: "fit_predict E a x rls tf cv vd vf = (out, a', evs)"
    using fp
  proof (cases rule: fit_predict_cases)
    case NoAttr
    then show ?thesis by simp
  next
    case (NoFolds lvls)
    then show ?thesis by simp
  next
    case (Holdout lvls)
    then show ?thesis by simp
  next
    case (Raised lvls e evs3)
    have sk: "skip_conn ((fit_start E a x rls tf)\<lparr>levels := Some []\<rparr>) = skip_conn a"
      by (simp add: fit_start_def)
    have mem: "FromDataset False \<in> set evs \<longleftrightarrow> FromDataset False \<in> set evs3"
      using Raised(5) by (simp add: start_events_no_conv)
    have 1: "out = Inl (TypeError conv_msg) \<and> skip_conn a \<and>
             (\<exists>pre. evs = pre @ [FromDataset False] \<and> FromDataset False \<notin> set pre)"
      if "FromDataset False \<in> set evs3"
    proof -
      from fit_levels_conv_fail [OF Raised(3) that] obtain pre where
        e: "e = TypeError conv_msg" and
        pre: "evs3 = pre @ [FromDataset False]" "FromDataset False \<notin> set pre"
        by auto
      from pre Raised(5)
      have "evs = (start_events vd @ pre) @ [FromDataset False] \<and>
            FromDataset False \<notin> set (start_events vd @ pre)"
        by (simp add: start_events_no_conv)
      then have "\<exists>pre. evs = pre @ [FromDataset False] \<and> FromDataset False \<notin> set pre" by blast
      moreover from fit_levels_conv_skip [OF Raised(3) that] sk have "skip_conn a" by simp
      ultimately show ?thesis using e Raised(4) by simp
    qed
    have 2: "m = conv_msg \<and> FromDataset False \<in> set evs3" if "out = Inl (TypeError m)" for m
    proof -
      from that Raised(4) have "e = TypeError m" by simp
      with Raised(3) show ?thesis by (simp add: fit_levels_conv_raise)
    qed
    from 1 2 mem show ?thesis by blast
  next
    case (Blended lvls lp ps a4 evs3 ret blended last_pipes b1)
    have "FromDataset False \<notin> set evs3"
      using fit_levels_conv_fail [OF Blended(3)] by auto
    with Blended(6,8) show ?thesis by (simp add: start_events_no_conv)
  qed
  have pred: "(FromDataset False \<in> set evs' \<longleftrightarrow> out' = Inl (TypeError conv_msg)) \<and>
      (\<forall>m. out' = Inl (TypeError m) \<longrightarrow> m = conv_msg) \<and>
      (FromDataset False \<in> set evs' \<longrightarrow>
         skip_conn b \<and> (\<exists>pre. evs' = pre @ [FromDataset False] \<and> FromDataset False \<notin> set pre))"
    if pr: "predict E b y fn = (out', b', evs')"
  proof (cases "levels b")
    case None
    with pr show ?thesis by (auto simp: predict_def)
  next
    case (Some lvls)
    obtain res evs2 where pl:
      "predict_levels E b (length lvls) 1 lvls (read E (reader b) y fn False) None = (res, evs2)"
      by (cases "predict_levels E b (length lvls) 1 lvls (read E (reader b) y fn False) None")
    with pr Some have o: "out' = res" and ev: "evs' = ReadData # evs2"
      by (simp_all add: predict_def)
    have 1: "out' = Inl (TypeError conv_msg) \<and> skip_conn b \<and>
             (\<exists>pre. evs' = pre @ [FromDataset False] \<and> FromDataset False \<notin> set pre)"
      if "FromDataset False \<in> set evs2"
    proof -
      from predict_levels_conv_fail [OF pl that] obtain pre where
        r: "res = Inl (TypeError conv_msg)" and
        pre: "evs2 = pre @ [FromDataset False]" "FromDataset False \<notin> set pre"
        by blast
      from pre ev have "evs' = (ReadData # pre) @ [FromDataset False] \<and>
            FromDataset False \<notin> set (ReadData # pre)" by simp
      then have "\<exists>pre. evs' = pre @ [FromDataset False] \<and> FromDataset False \<notin> set pre" by blast
      moreover from predict_levels_conv_skip [OF pl that] have "skip_conn b" .
      ultimately show ?thesis using r o by simp
    qed
    have 2: "m = conv_msg \<and> FromDataset False \<in> set evs2" if "out' = Inl (TypeError m)" for m
      using predict_levels_raise [of E b "length lvls" 1 lvls _ None "TypeError m" evs2] pl o that
      by simp
    have mem: "FromDataset False \<in> set evs' \<longleftrightarrow> FromDataset False \<in> set evs2"
      using ev by simp
    from 1 2 mem show ?thesis by blast
  qed
  from fit pred show ?thesis unfolding conv_msg_def by blast
qed

text \<open>
  With the skip connection, pipelines that predict \<open>NumpyDataset\<close>s fail on
  \<open>PandasDataset\<close> training data; an orchestrator trained on \<open>PandasDataset\<close>s
  fails in \<^verbatim>\<open>predict\<close> on a \<open>NumpyDataset\<close>.
\<close>

theorem conversion_failure_witness:
  "FromDataset False \<in> set (snd (snd (fit_predict ex_collab
       (ex_automl ex_two_levels PipelineTimer True) (ex_data (Some [0, 1])) [] None None None None))) \<and>
   fst (fit_predict ex_collab
       (ex_automl ex_two_levels PipelineTimer True) (ex_data (Some [0, 1])) [] None None None None) =
     Inl (TypeError
       ''Can not convert prediction dataset type to input features. Set skip_conn=False'') \<and>
   FromDataset False \<in> set (snd (snd (predict ex_collab
       (fst (snd (fit_predict ex_collab (ex_automl ex_pandas_levels PipelineTimer True)
                    (ex_data (Some [0, 1])) [] None None None None)))
       ((ex_data None)\<lparr>ds_class := NumpyDataset\<rparr>) None))) \<and>
   fst (predict ex_collab
       (fst (snd (fit_predict ex_collab (ex_automl ex_pandas_levels PipelineTimer True)
                    (ex_data (Some [0, 1])) [] None None None None)))
       ((ex_data None)\<lparr>ds_class := NumpyDataset\<rparr>) None) =
     Inl (TypeError
       ''Can not convert prediction dataset type to input features. Set skip_conn=False'')"
proof -
  let ?r = "fit_predict ex_collab
       (ex_automl ex_two_levels PipelineTimer True) (ex_data (Some [0, 1])) [] None None None None"
  let ?b = "fst (snd (fit_predict ex_collab (ex_automl ex_pandas_levels PipelineTimer True)
                    (ex_data (Some [0, 1])) [] None None None None))"
  let ?p = "predict ex_collab ?b ((ex_data None)\<lparr>ds_class := NumpyDataset\<rparr>) None"
  have f1: "FromDataset False \<in> set (snd (snd ?r))" by code_simp
  have f2: "FromDataset False \<in> set (snd (snd ?p))" by code_simp
  have run: "?r = (fst ?r, fst (snd ?r), snd (snd ?r))" by simp
  have prd: "?p = (fst ?p, fst (snd ?p), snd (snd ?p))" by simp
  note c = conversion_failure [of ex_collab "ex_automl ex_two_levels PipelineTimer True"
      "ex_data (Some [0, 1])" "[]" None None None None "fst ?r" "fst (snd ?r)" "snd (snd ?r)"
      ?b "(ex_data None)\<lparr>ds_class := NumpyDataset\<rparr>" None "fst ?p" "fst (snd ?p)" "snd (snd ?p)"]
  from c run f1 have "fst ?r = Inl (TypeError
       ''Can not convert prediction dataset type to input features. Set skip_conn=False'')"
    by blast
  moreover from c prd f2 have "fst ?p = Inl (TypeError
       ''Can not convert prediction dataset type to input features. Set skip_conn=False'')"
    by blast
  ultimately show ?thesis using f1 f2 by blast
qed

text \<open>
  Claim C6. With more than one configured level and a timer that never signals
  (neither the global budget nor a child), a \<^verbatim>\<open>fit_predict\<close> that returns leaves
  as many retained levels as were configured: each level but the last holds its
  pipelines after their fit, and the last entry is the list of pipelines that the
  blender returned for the last level. It does return when the training data has
  folds, no holdout data is given and no conversion for the skip connection fails;
  a run that raises does not get as far as the last level.
\<close>

theorem retained_levels_without_timeout:
  assumes "u_levels a = Some lvls" "1 < length lvls"
    and "\<forall>k. \<not> limit_exceeded_at (timer a) k \<and> \<not> child_out_at (timer a) k"
  shows "(fit_predict E a x rls tf cv vd vf = (Inr d, a', evs) \<longrightarrow>
           (\<exists>ret. levels a' = Some ret \<and> length ret = length lvls \<and>
              (\<forall>i < length lvls - 1.
                 \<exists>tv. ret ! i = map (\<lambda>p. snd (pipe_fit_predict E p tv)) (lvls ! i)) \<and>
              (\<exists>tv. last ret =
                 snd (fst (blender_fit_predict E (blender a)
                   (PList (map (\<lambda>p. fst (pipe_fit_predict E p tv)) (last lvls)))
                   (Some (map (\<lambda>p. snd (pipe_fit_predict E p tv)) (last lvls)))))))) \<and>
         (folds E (fst (fit_read E (reader a) x tf rls)) \<noteq> None \<and> vd = None \<and>
          (skip_conn a \<longrightarrow> (\<forall>target other. from_dataset E target other \<noteq> None)) \<longrightarrow>
            (\<exists>d. fst (fit_predict E a x rls tf cv vd vf) = Inr d))"
proof -
  have retained: "\<exists>ret. levels a' = Some ret \<and> length ret = length lvls \<and>
              (\<forall>i < length lvls - 1.
                 \<exists>tv. ret ! i = map (\<lambda>p. snd (pipe_fit_predict E p tv)) (lvls ! i)) \<and>
              (\<exists>tv. last ret =
                 snd (fst (blender_fit_predict E (blender a)
                   (PList (map (\<lambda>p. fst (pipe_fit_predict E p tv)) (last lvls)))
                   (Some (map (\<lambda>p. snd (pipe_fit_predict E p tv)) (last lvls))))))"
    if "fit_predict E a x rls tf cv vd vf = (Inr d, a', evs)"
    using that
  proof (cases rule: fit_predict_cases)
    case (Blended lvls' lp ps a4 evs3 ret0 blended last_pipes b1)
    from Blended(1) assms(1) have lv: "lvls' = lvls" by simp
    from assms(2) have ne: "lvls \<noteq> []" by auto
    have no: "never_out (timer ((fit_start E a x rls tf)\<lparr>levels := Some []\<rparr>))"
      using assms(3) by (simp add: fit_start_def never_out_def timer_start_def)
    have l0: "levels ((fit_start E a x rls tf)\<lparr>levels := Some []\<rparr>) = Some []" by simp
    have "1 + length lvls = Suc (length lvls)" by simp
    from fit_levels_never_out [OF no l0 this ne Blended(3) [unfolded lv]] obtain ret tvl where
      r: "levels a4 = Some ([] @ ret)" "list_all2 (fitted_level E) ret (butlast lvls)"
        "lp = PList (map (\<lambda>p. fst (pipe_fit_predict E p tvl)) (last lvls))"
        "ps = Some (map (\<lambda>p. snd (pipe_fit_predict E p tvl)) (last lvls))"
      by blast
    from r(1) Blended(4) have ret0: "ret0 = ret" by simp
    from r(2) have len: "length ret = length lvls - 1" by (simp add: list_all2_lengthD)
    have nth: "\<exists>tv. (ret @ [last_pipes]) ! i = map (\<lambda>p. snd (pipe_fit_predict E p tv)) (lvls ! i)"
      if "i < length lvls - 1" for i
    proof -
      from that len have i: "i < length ret" by simp
      with r(2) have "fitted_level E (ret ! i) (butlast lvls ! i)" by (simp add: list_all2_nthD)
      moreover from that have "butlast lvls ! i = lvls ! i" by (simp add: nth_butlast)
      ultimately show ?thesis using i by (simp add: fitted_level_def nth_append)
    qed
    have "levels a' = Some (ret @ [last_pipes])" using Blended(7) ret0 by simp
    moreover have "length (ret @ [last_pipes]) = length lvls" using len ne by simp
    moreover have "\<exists>tv. last (ret @ [last_pipes]) =
                snd (fst (blender_fit_predict E (blender a)
                  (PList (map (\<lambda>p. fst (pipe_fit_predict E p tv)) (last lvls)))
                  (Some (map (\<lambda>p. snd (pipe_fit_predict E p tv)) (last lvls)))))"
      using Blended(5) r(3,4) by (intro exI [of _ tvl]) simp
    ultimately show ?thesis using nth by blast
  qed simp_all
  have returns: "\<exists>d. fst (fit_predict E a x rls tf cv vd vf) = Inr d"
    if fo: "folds E (fst (fit_read E (reader a) x tf rls)) \<noteq> None" and vd: "vd = None"
      and cv: "skip_conn a \<longrightarrow> (\<forall>target other. from_dataset E target other \<noteq> None)"
  proof -
    have "fit_predict E a x rls tf cv vd vf =
        (fst (fit_predict E a x rls tf cv vd vf), fst (snd (fit_predict E a x rls tf cv vd vf)),
         snd (snd (fit_predict E a x rls tf cv vd vf)))" by simp
    then show ?thesis
    proof (cases rule: fit_predict_cases)
      case NoAttr
      with assms(1) show ?thesis by simp
    next
      case (NoFolds lvls')
      with fo show ?thesis by simp
    next
      case (Holdout lvls')
      with vd show ?thesis by simp
    next
      case (Raised lvls' e evs3)
      have sk: "skip_conn ((fit_start E a x rls tf)\<lparr>levels := Some []\<rparr>) = skip_conn a"
        by (simp add: fit_start_def)
      from fit_levels_raise [OF Raised(3)] have "e = TypeError conv_msg" by simp
      with Raised(3) fit_levels_type_error [of E "length lvls'" 1 lvls' _ PNone None _ conv_msg] sk
      have "skip_conn a \<and> (\<exists>target other. from_dataset E target other = None)" by simp
      with cv show ?thesis by blast
    next
      case (Blended lvls' lp ps a4 evs3 ret0 blended last_pipes b1)
      then show ?thesis by simp
    qed
  qed
  from retained returns show ?thesis by blast
qed

theorem retained_levels_without_timeout_witness:
  "u_levels (ex_automl ex_two_levels PipelineTimer False) = Some (name_levels ex_collab 0 ex_two_levels) \<and>
   1 < length (name_levels ex_collab 0 ex_two_levels) \<and>
   (\<forall>k. \<not> limit_exceeded_at (timer (ex_automl ex_two_levels PipelineTimer False)) k \<and>
        \<not> child_out_at (timer (ex_automl ex_two_levels PipelineTimer False)) k) \<and>
   (\<exists>d. fst (fit_predict ex_collab (ex_automl ex_two_levels PipelineTimer False)
               (ex_data (Some [0, 1])) [] None None None None) = Inr d) \<and>
   (\<exists>ret. levels (fst (snd (fit_predict ex_collab (ex_automl ex_two_levels PipelineTimer False)
                              (ex_data (Some [0, 1])) [] None None None None))) = Some ret \<and>
          length ret = 2)"
proof -
  let ?a = "ex_automl ex_two_levels PipelineTimer False"
  let ?r = "fit_predict ex_collab ?a (ex_data (Some [0, 1])) [] None None None None"
  have ul: "u_levels ?a = Some (name_levels ex_collab 0 ex_two_levels)"
    by (simp add: ex_automl_def)
  have len: "1 < length (name_levels ex_collab 0 ex_two_levels)"
    by (simp add: ex_two_levels_def)
  have tm: "\<forall>k. \<not> limit_exceeded_at (timer ?a) k \<and> \<not> child_out_at (timer ?a) k"
    by (simp add: ex_automl_def PipelineTimer_def)
  have fo: "folds ex_collab (fst (fit_read ex_collab (reader ?a) (ex_data (Some [0, 1])) None [])) \<noteq> None"
    by (simp add: ex_collab_def ex_data_def)
  have sk: "\<not> skip_conn ?a" by (simp add: ex_automl_def)
  note t = retained_levels_without_timeout [OF ul len tm, of ex_collab "ex_data (Some [0, 1])" "[]"
      None None None None]
  from t fo sk obtain d where d: "fst ?r = Inr d" by blast
  then have run: "?r = (Inr d, fst (snd ?r), snd (snd ?r))" by (simp add: prod_eq_iff)
  with t obtain ret where
    "levels (fst (snd ?r)) = Some ret" "length ret = length (name_levels ex_collab 0 ex_two_levels)"
    by blast
  moreover have "length (name_levels ex_collab 0 ex_two_levels) = 2"
    by (simp add: ex_two_levels_def)
  ultimately have "\<exists>ret. levels (fst (snd ?r)) = Some ret \<and> length ret = 2" by simp
  with ul len tm d show ?thesis by blast
qed

text \<open>
  Claim C7, as amended. After \<^verbatim>\<open>fit_predict\<close> has returned,
  \<^verbatim>\<open>collect_used_feats()\<close> is the union of the used features of all retained
  pipelines. The last call of \<^verbatim>\<open>fit_predict\<close> was \<^verbatim>\<open>upd_used_features\<close> on the
  reader, with exactly those of the reader's used features that no retained
  pipeline refers to. So if \<^verbatim>\<open>upd_used_features\<close> removes the features it is
  given, the reader's used features are what \<^verbatim>\<open>fit_read\<close> left of them
  intersected with that union: every feature no retained pipeline refers to is
  gone. The union itself need not lie within the reader's features, because the
  pipelines of the later levels use the predictions of the level before.
\<close>

theorem used_features_pruned:
  assumes "fit_predict E a x rls tf cv vd vf = (Inr d, a', evs)"
  shows "\<exists>used ret remove.
           collect_used_feats E a' = Inr used \<and> levels a' = Some ret \<and>
           set used = (\<Union>lvl \<in> set ret. \<Union>p \<in> set lvl. set (pipe_used_features E p)) \<and>
           last evs = UpdUsedFeatures remove \<and>
           set remove = set (used_features E (snd (fit_read E (reader a) x tf rls))) - set used \<and>
           reader a' = upd_used_features E (snd (fit_read E (reader a) x tf rls)) remove \<and>
           ((\<forall>r rm. set (used_features E (upd_used_features E r rm)) =
                      set (used_features E r) - set rm) \<longrightarrow>
              set (used_features E (reader a')) =
                set (used_features E (snd (fit_read E (reader a) x tf rls))) \<inter> set used)"
  using assms
proof (cases rule: fit_predict_cases)
  case (Blended lvls lp ps a4 evs3 ret0 blended last_pipes b1)
  from fit_levels_frame [OF Blended(3)]
  have rd: "reader a4 = snd (fit_read E (reader a) x tf rls)" by (simp add: fit_start_def)
  let ?ret = "ret0 @ [last_pipes]"
  let ?used = "remdups (concat (map (pipe_used_features E) (concat ?ret)))"
  let ?remove = "removed_features E (reader a4) ?ret"
  from Blended(7) have lv: "levels a' = Some ?ret" by simp
  then have cu: "collect_used_feats E a' = Inr ?used" by (simp add: collect_used_feats_def)
  have su: "set ?used = (\<Union>lvl \<in> set ?ret. \<Union>p \<in> set lvl. set (pipe_used_features E p))"
    by auto
  from Blended(8) have la: "last evs = UpdUsedFeatures ?remove" by simp
  have sr: "set ?remove = set (used_features E (snd (fit_read E (reader a) x tf rls))) - set ?used"
    unfolding set_removed_features su rd ..
  from Blended(7) have ra: "reader a' =
      upd_used_features E (snd (fit_read E (reader a) x tf rls)) ?remove" by (simp add: rd)
  have "set (used_features E (reader a')) =
          set (used_features E (snd (fit_read E (reader a) x tf rls))) \<inter> set ?used"
    if "\<forall>r rm. set (used_features E (upd_used_features E r rm)) = set (used_features E r) - set rm"
  proof -
    from that ra have "set (used_features E (reader a')) =
        set (used_features E (snd (fit_read E (reader a) x tf rls))) - set ?remove" by simp
    also have "\<dots> = set (used_features E (snd (fit_read E (reader a) x tf rls))) \<inter> set ?used"
      unfolding sr by blast
    finally show ?thesis .
  qed
  with cu lv su la sr ra show ?thesis by blast
qed simp_all

theorem used_features_pruned_witness:
  "(\<forall>r remove. set (used_features ex_collab (upd_used_features ex_collab r remove)) =
                 set (used_features ex_collab r) - set remove) \<and>
   fst (fit_predict ex_collab (ex_automl ex_two_levels PipelineTimer False)
          (ex_data (Some [0, 1])) [] None None None None) =
     Inr (ex_prediction (ex_fitted 1 0 []) (Some [0, 1])) \<and>
   (\<exists>used. collect_used_feats ex_collab
              (fst (snd (fit_predict ex_collab (ex_automl ex_two_levels PipelineTimer False)
                           (ex_data (Some [0, 1])) [] None None None None))) = Inr used \<and>
      set (used_features ex_collab
             (reader (fst (snd (fit_predict ex_collab (ex_automl ex_two_levels PipelineTimer False)
                                  (ex_data (Some [0, 1])) [] None None None None))))) \<subseteq> set used)"
proof -
  let ?a = "ex_automl ex_two_levels PipelineTimer False"
  let ?r = "fit_predict ex_collab ?a (ex_data (Some [0, 1])) [] None None None None"
  have rc: "\<forall>r remove. set (used_features ex_collab (upd_used_features ex_collab r remove)) =
                 set (used_features ex_collab r) - set remove"
    by (auto simp: ex_collab_def)
  have out: "fst ?r = Inr (ex_prediction (ex_fitted 1 0 []) (Some [0, 1]))" by code_simp
  then have run: "?r = (Inr (ex_prediction (ex_fitted 1 0 []) (Some [0, 1])), fst (snd ?r), snd (snd ?r))"
    by (simp add: prod_eq_iff)
  from used_features_pruned [OF run] rc obtain used where
    "collect_used_feats ex_collab (fst (snd ?r)) = Inr used"
    "set (used_features ex_collab (reader (fst (snd ?r)))) =
       set (used_features ex_collab (snd (fit_read ex_collab (reader ?a) (ex_data (Some [0, 1])) None [])))
       \<inter> set used"
    by blast
  then have "\<exists>used. collect_used_feats ex_collab (fst (snd ?r)) = Inr used \<and>
      set (used_features ex_collab (reader (fst (snd ?r)))) \<subseteq> set used"
    by blast
  with rc out show ?thesis by blast
qed

text \<open>
  The claim as stated fails: after a run with two levels,
  \<^verbatim>\<open>collect_used_feats()\<close> contains the names of the first level's predictions,
  which the pipeline of the second level was fitted on and which are no features of
  the reader.
\<close>

theorem used_features_pruned_counterexample:
  "collect_used_feats ex_collab
     (fst (snd (fit_predict ex_collab (ex_automl ex_two_levels PipelineTimer False)
                  (ex_data (Some [0, 1])) [] None None None None))) =
     Inr [''x1'', ''x2'', ''Lvl_0_Pipe_0_prediction'', ''Lvl_0_Pipe_1_prediction''] \<and>
   used_features ex_collab
     (snd (fit_read ex_collab [] (ex_data (Some [0, 1])) None [])) = [''x1'', ''x2''] \<and>
   \<not> set [''x1'', ''x2'', ''Lvl_0_Pipe_0_prediction'', ''Lvl_0_Pipe_1_prediction'']
       \<subseteq> set [''x1'', ''x2'']"
  by code_simp

text \<open>
  Claim C8. \<^verbatim>\<open>predict\<close> leaves the orchestrator as it found it, so a second
  call on the same input gives the same outcome and makes the same calls. It only
  reads data, lets pipelines predict, concatenates, converts and lets the blender
  predict: it never touches the timer and never updates the reader's used features.
\<close>

theorem predict_pure:
  assumes "predict E a x fn = (out, a', evs)"
  shows "a' = a \<and> predict E a' x fn = (out, a', evs) \<and> (\<forall>e \<in> set evs. inference_event e)"
proof -
  from assms have eq: "a' = a"
    by (auto simp: predict_def Let_def split: option.splits prod.splits)
  have "\<forall>e \<in> set evs. inference_event e"
  proof (cases "levels a")
    case None
    with assms show ?thesis by (auto simp: predict_def)
  next
    case (Some lvls)
    obtain res evs2 where pl:
      "predict_levels E a (length lvls) 1 lvls (read E (reader a) x fn False) None = (res, evs2)"
      by (cases "predict_levels E a (length lvls) 1 lvls (read E (reader a) x fn False) None")
    with assms Some have "evs = ReadData # evs2" by (simp add: predict_def)
    with predict_levels_events [OF pl] show ?thesis by simp
  qed
  with eq assms show ?thesis by simp
qed

theorem predict_pure_witness:
  "fst (predict ex_collab
         (fst (snd (fit_predict ex_collab (ex_automl ex_two_levels PipelineTimer False)
                      (ex_data (Some [0, 1])) [] None None None None)))
         (ex_data None) None) =
     Inr (Some (ex_prediction (ex_fitted 1 0 []) None)) \<and>
   fst (predict ex_collab
         (fst (snd (predict ex_collab
            (fst (snd (fit_predict ex_collab (ex_automl ex_two_levels PipelineTimer False)
                         (ex_data (Some [0, 1])) [] None None None None)))
            (ex_data None) None)))
         (ex_data None) None) =
     Inr (Some (ex_prediction (ex_fitted 1 0 []) None))"
proof -
  let ?a = "fst (snd (fit_predict ex_collab (ex_automl ex_two_levels PipelineTimer False)
                      (ex_data (Some [0, 1])) [] None None None None))"
  let ?p = "predict ex_collab ?a (ex_data None) None"
  have out: "fst ?p = Inr (Some (ex_prediction (ex_fitted 1 0 []) None))" by code_simp
  have run: "?p = (fst ?p, fst (snd ?p), snd (snd ?p))" by simp
  from predict_pure [OF run] have "predict ex_collab (fst (snd ?p)) (ex_data None) None = ?p"
    by simp
  with out show ?thesis by simp
qed

text \<open>
  Claim C9. An empty list of levels is rejected by \<^verbatim>\<open>_initialize\<close> with an
  assertion error. \<^verbatim>\<open>fit_predict\<close> with more than one level and holdout
  validation data raises an assertion error, and no pipeline is fitted before.
\<close>

theorem configuration_errors:
  "initialize E rd [] tm bl sc = Inl (AssertionError ''At least 1 level should be defined'') \<and>
   (u_levels a = Some lvls \<and> 1 < length lvls \<longrightarrow>
      (\<exists>msg. fst (fit_predict E a x rls tf cv (Some vd) vf) = Inl (AssertionError msg)) \<and>
      (\<forall>e \<in> set (snd (snd (fit_predict E a x rls tf cv (Some vd) vf))). \<not> is_pipe_fit e))"
proof -
  have 1: "initialize E rd [] tm bl sc = Inl (AssertionError ''At least 1 level should be defined'')"
    by (simp add: initialize_def)
  have 2: "(\<exists>msg. fst (fit_predict E a x rls tf cv (Some vd) vf) = Inl (AssertionError msg)) \<and>
      (\<forall>e \<in> set (snd (snd (fit_predict E a x rls tf cv (Some vd) vf))). \<not> is_pipe_fit e)"
    if "u_levels a = Some lvls" "1 < length lvls"
    using that by (simp add: fit_predict_unfold)
  from 1 2 show ?thesis by blast
qed

theorem configuration_errors_witness:
  "u_levels (ex_automl ex_two_levels PipelineTimer False) = Some (name_levels ex_collab 0 ex_two_levels) \<and>
   1 < length (name_levels ex_collab 0 ex_two_levels) \<and>
   fst (fit_predict ex_collab (ex_automl ex_two_levels PipelineTimer False)
          (ex_data (Some [0, 1])) [] None None (Some (ex_data None)) None) =
     Inl (AssertionError ''Not possible to fit more than 1 level with holdout validation'') \<and>
   filter is_pipe_fit
     (snd (snd (fit_predict ex_collab (ex_automl ex_two_levels PipelineTimer False)
                  (ex_data (Some [0, 1])) [] None None (Some (ex_data None)) None))) = []"
proof -
  let ?a = "ex_automl ex_two_levels PipelineTimer False"
  have ul: "u_levels ?a = Some (name_levels ex_collab 0 ex_two_levels)"
    by (simp add: ex_automl_def)
  have len: "1 < length (name_levels ex_collab 0 ex_two_levels)"
    by (simp add: ex_two_levels_def)
  have out: "fst (fit_predict ex_collab ?a (ex_data (Some [0, 1])) [] None None
                    (Some (ex_data None)) None) =
     Inl (AssertionError ''Not possible to fit more than 1 level with holdout validation'')"
    by code_simp
  from configuration_errors [of ex_collab "[]" None None False ?a
      "name_levels ex_collab 0 ex_two_levels" "ex_data (Some [0, 1])" "[]" None None "ex_data None" None]
    ul len
  have "\<forall>e \<in> set (snd (snd (fit_predict ex_collab ?a (ex_data (Some [0, 1])) [] None None
                               (Some (ex_data None)) None))). \<not> is_pipe_fit e"
    by blast
  then have "filter is_pipe_fit (snd (snd (fit_predict ex_collab ?a (ex_data (Some [0, 1])) [] None None
                               (Some (ex_data None)) None))) = []"
    by (simp add: filter_empty_conv)
  with ul len out show ?thesis by blast
qed

text \<open>
  Claim C10. A \<^verbatim>\<open>fit_predict\<close> that returns has deleted \<^verbatim>\<open>self._levels\<close>, so
  every further \<^verbatim>\<open>fit_predict\<close> on the same object raises an attribute error
  once the timer is restarted and the reader has read the data, and fits nothing.
  \<^verbatim>\<open>_initialize\<close> does not create \<^verbatim>\<open>self.levels\<close>, so \<^verbatim>\<open>predict\<close> on a fresh
  orchestrator raises an attribute error.
\<close>

theorem single_use:
  "(fit_predict E a x rls tf cv vd vf = (Inr d, a', evs) \<longrightarrow>
      u_levels a' = None \<and>
      (\<forall>x2 rls2 tf2 cv2 vd2 vf2.
         fst (fit_predict E a' x2 rls2 tf2 cv2 vd2 vf2) = Inl (AttributeError ''_levels'') \<and>
         snd (snd (fit_predict E a' x2 rls2 tf2 cv2 vd2 vf2)) = [TimerStart, FitRead])) \<and>
   (initialize E rd lvls tm bl sc = Inr a0 \<longrightarrow>
      levels a0 = None \<and> fst (predict E a0 y fn) = Inl (AttributeError ''levels''))"
proof -
  have 1: "u_levels a' = None" if "fit_predict E a x rls tf cv vd vf = (Inr d, a', evs)"
    using that by (cases rule: fit_predict_cases) simp_all
  have 2: "fst (fit_predict E a' x2 rls2 tf2 cv2 vd2 vf2) = Inl (AttributeError ''_levels'') \<and>
         snd (snd (fit_predict E a' x2 rls2 tf2 cv2 vd2 vf2)) = [TimerStart, FitRead]"
    if "u_levels a' = None" for x2 rls2 tf2 cv2 vd2 vf2
    using that by (simp add: fit_predict_unfold)
  have 3: "levels a0 = None \<and> fst (predict E a0 y fn) = Inl (AttributeError ''levels'')"
    if "initialize E rd lvls tm bl sc = Inr a0"
  proof -
    from that have "levels a0 = None" by (auto simp: initialize_def split: if_splits)
    then show ?thesis by (simp add: predict_def)
  qed
  from 1 2 3 show ?thesis by blast
qed

theorem single_use_witness:
  "fst (fit_predict ex_collab (ex_automl ex_two_levels PipelineTimer False)
          (ex_data (Some [0, 1])) [] None None None None) =
     Inr (ex_prediction (ex_fitted 1 0 []) (Some [0, 1])) \<and>
   fst (fit_predict ex_collab
          (fst (snd (fit_predict ex_collab (ex_automl ex_two_levels PipelineTimer False)
                       (ex_data (Some [0, 1])) [] None None None None)))
          (ex_data (Some [0, 1])) [] None None None None) = Inl (AttributeError ''_levels'') \<and>
   initialize ex_collab [] ex_two_levels None None False =
     Inr (ex_automl ex_two_levels PipelineTimer False) \<and>
   fst (predict ex_collab (ex_automl ex_two_levels PipelineTimer False) (ex_data None) None) =
     Inl (AttributeError ''levels'')"
proof -
  let ?a = "ex_automl ex_two_levels PipelineTimer False"
  let ?r = "fit_predict ex_collab ?a (ex_data (Some [0, 1])) [] None None None None"
  have out: "fst ?r = Inr (ex_prediction (ex_fitted 1 0 []) (Some [0, 1]))" by code_simp
  then have run: "?r = (Inr (ex_prediction (ex_fitted 1 0 []) (Some [0, 1])), fst (snd ?r), snd (snd ?r))"
    by (simp add: prod_eq_iff)
  have ini: "initialize ex_collab [] ex_two_levels None None False = Inr ?a"
    by (simp add: initialize_def ex_automl_def ex_collab_def ex_two_levels_def)
  note s = single_use [of ex_collab ?a "ex_data (Some [0, 1])" "[]" None None None None
      "ex_prediction (ex_fitted 1 0 []) (Some [0, 1])" "fst (snd ?r)" "snd (snd ?r)"
      "[]" ex_two_levels None None False ?a "ex_data None" None]
  from s run have "fst (fit_predict ex_collab (fst (snd ?r)) (ex_data (Some [0, 1])) [] None None
                          None None) = Inl (AttributeError ''_levels'')"
    by blast
  moreover from s ini have "fst (predict ex_collab ?a (ex_data None) None) =
      Inl (AttributeError ''levels'')"
    by blast
  ultimately show ?thesis using out ini by blast
qed

end
